theory Spec2Isabelle
  imports
    Complex_Main
    "HOL-Library.Log_Nat"
    "HOL-Library.Char_ord"
    "HOL-Library.List_Lexorder"
    "HOL-Library.Product_Lexorder"
begin

section \<open>The betting ledger: data model\<close>

text \<open>
  The program is a Streamlit front end (\<^verbatim>\<open>stake.py\<close>) over an SQLite store
  (\<^verbatim>\<open>database.py\<close>). The stake calculator is modelled on doubles, with their
  rounding. The amounts, odds and balances kept in the ledger (columns of NUMERIC
  affinity) are modelled by their exact rational values. \<^verbatim>\<open>CURRENT_TIMESTAMP\<close> is the
  parameter \<open>now\<close> of every writing operation. A Python exception is a value of type
  \<open>error\<close>; an operation that can raise returns \<open>error + 'a\<close>.
\<close>

datatype error =
    ZeroDivisionError
  | OverflowError
  | IndexError
  | KeyError string
  | ValueError string
  | IntegrityError string
  | OperationalError
  | StreamlitAPIException

text \<open>Rows of the tables created by \<^verbatim>\<open>_setup_database\<close>.\<close>

record account_row =
  acc_id :: int
  acc_name :: string
  acc_balance :: rat
  acc_remarks :: string
  acc_created_at :: nat
  acc_updated_at :: nat
  acc_is_active :: bool

record match_row =
  m_id :: int
  m_team1 :: string
  m_team2 :: string
  m_match_date :: string
  m_match_time :: string
  m_status :: string
  m_created_at :: nat
  m_updated_at :: nat

record bet_row =
  b_id :: int
  b_match_id :: int
  b_team1_odds :: rat
  b_team2_odds :: rat
  b_betting_value :: rat
  b_status :: string
  b_created_at :: nat
  b_updated_at :: nat

record bet_account_row =
  ba_bet_id :: int
  ba_account_id :: int
  ba_team_number :: int
  ba_bet_amount :: rat
  ba_status :: string
  ba_created_at :: nat

record result_row =
  r_id :: int
  r_bet_id :: int
  r_winning_team :: "int option"
  r_result_type :: string
  r_profit_amount :: "rat option"
  r_loss_amount :: "rat option"
  r_cashout_details :: "(int \<times> rat) list"
  r_created_at :: nat

record settings_row =
  s_min_transfer :: rat
  s_default_betting_value :: rat
  s_updated_at :: nat

text \<open>
  The database: one list of rows per table, the singleton settings row, and the
  \<^verbatim>\<open>sqlite_sequence\<close> counters of the three AUTOINCREMENT keys.
\<close>

record database =
  accounts :: "account_row list"
  matches :: "match_row list"
  bets :: "bet_row list"
  bet_accounts :: "bet_account_row list"
  results :: "result_row list"
  settings :: settings_row
  seq_matches :: int
  seq_bets :: int
  seq_results :: int

section \<open>Stake calculator\<close>

text \<open>
  \<^verbatim>\<open>calculate_bet_amount\<close> (stake.py) divides two Python floats and, unless
  \<^verbatim>\<open>show_accurate\<close>, applies \<^verbatim>\<open>math.ceil\<close>. A Python float is an IEEE 754 double: a
  finite value, an infinity or NaN. A finite double is modelled by its exact rational
  value; the two zeros are not told apart (they compare equal). \<open>PyInt\<close> is a Python
  \<^verbatim>\<open>int\<close>, which \<^verbatim>\<open>math.ceil\<close> returns.
\<close>

datatype pyfloat = Fin rat | PInf | NInf | NaN

datatype pynum = PyFloat pyfloat | PyInt int

text \<open>
  Rounding a rational to the nearest double, ties to even. For a positive \<open>q\<close>,
  \<open>ilog2 q\<close> is the exponent \<open>e\<close> with \<open>2 powi e \<le> q < 2 powi (e + 1)\<close>. The doubles
  of that binade are the multiples of \<open>2 powi (e - 52)\<close>; below \<open>2 powi (- 1022)\<close>, the
  smallest normal number, they are the multiples of \<open>2 powi (- 1074)\<close>. A result that
  reaches \<open>2 ^ 1024\<close> is an infinity.
\<close>

definition ilog2 :: "rat \<Rightarrow> int" where
  "ilog2 q =
     (let k = bitlen (fst (quotient_of q)) - bitlen (snd (quotient_of q))
      in if 2 powi k \<le> q then k else k - 1)"

definition round_half_even :: "rat \<Rightarrow> int" where
  "round_half_even m =
     (if m - of_int \<lfloor>m\<rfloor> < 1 / 2 then \<lfloor>m\<rfloor>
      else if 1 / 2 < m - of_int \<lfloor>m\<rfloor> then \<lfloor>m\<rfloor> + 1
      else if even \<lfloor>m\<rfloor> then \<lfloor>m\<rfloor> else \<lfloor>m\<rfloor> + 1)"

definition overflow_threshold :: rat where
  "overflow_threshold = 2 ^ 1024"


definition round_double :: "rat \<Rightarrow> pyfloat" where
  "round_double q =
     (if q = 0 then Fin 0
      else
        let ulp = 2 powi (max (ilog2 \<bar>q\<bar>) (- 1022) - 52);
            x = of_int (round_half_even (\<bar>q\<bar> / ulp)) * ulp
        in if overflow_threshold \<le> x then (if 0 < q then PInf else NInf)
           else Fin (if 0 < q then x else - x))"

text \<open>The rationals that are values of doubles.\<close>

definition is_double :: "rat \<Rightarrow> bool" where
  "is_double x = (round_double x = Fin x)"

text \<open>
  Python's \<^verbatim>\<open>a / b\<close> on floats: \<^verbatim>\<open>ZeroDivisionError\<close> when \<^verbatim>\<open>b == 0.0\<close>, whatever
  \<^verbatim>\<open>a\<close> is; otherwise the IEEE quotient, which is the rounded exact quotient for finite
  operands (an overflow gives an infinity and raises nothing).
\<close>

fun float_div :: "pyfloat \<Rightarrow> pyfloat \<Rightarrow> error + pyfloat" where
  "float_div a (Fin y) =
     (if y = 0 then Inl ZeroDivisionError
      else case a of
             Fin x \<Rightarrow> Inr (round_double (x / y))
           | PInf \<Rightarrow> Inr (if 0 < y then PInf else NInf)
           | NInf \<Rightarrow> Inr (if 0 < y then NInf else PInf)
           | NaN \<Rightarrow> Inr NaN)"
| "float_div (Fin x) PInf = Inr (Fin 0)"
| "float_div (Fin x) NInf = Inr (Fin 0)"
| "float_div a b = Inr NaN"

text \<open>
  \<^verbatim>\<open>math.ceil\<close> of a float: the integer ceiling of its value; \<^verbatim>\<open>OverflowError\<close> for an
  infinity and \<^verbatim>\<open>ValueError\<close> for NaN.
\<close>

fun math_ceil :: "pyfloat \<Rightarrow> error + int" where
  "math_ceil (Fin x) = Inr \<lceil>x\<rceil>"
| "math_ceil PInf = Inl OverflowError"
| "math_ceil NInf = Inl OverflowError"
| "math_ceil NaN = Inl (ValueError ''cannot convert float NaN to integer'')"

definition calculate_bet_amount :: "pyfloat \<Rightarrow> pyfloat \<Rightarrow> bool \<Rightarrow> error + pynum" where
  "calculate_bet_amount betting_value odds show_accurate =
     (case float_div betting_value odds of
        Inl e \<Rightarrow> Inl e
      | Inr amount \<Rightarrow>
          if show_accurate then Inr (PyFloat amount)
          else (case math_ceil amount of Inl e \<Rightarrow> Inl e | Inr n \<Rightarrow> Inr (PyInt n)))"

section \<open>The store (database.py)\<close>

text \<open>
  Every method of \<^verbatim>\<open>Database\<close> runs inside \<^verbatim>\<open>try\<close>. Its first argument \<open>ok\<close> says
  whether SQLite carries out the statements of this call; when it does not (a locked or
  unwritable file) the call raises \<^verbatim>\<open>sqlite3.OperationalError\<close>. Constraint violations
  are computed from the tables. The writing methods run \<^verbatim>\<open>conn.rollback()\<close> before they
  re-raise, so a call that returns \<open>Inl\<close> leaves the database it was given.
\<close>

text \<open>Python's \<^verbatim>\<open>str\<close> of an integer, for the f-strings of names and messages.\<close>

function str_nat :: "nat \<Rightarrow> string" where
  "str_nat n =
     (if n < 10 then [''0123456789'' ! n]
      else str_nat (n div 10) @ [''0123456789'' ! (n mod 10)])"
  by pat_completeness auto
termination
  by (relation "measure id") auto

definition str_int :: "int \<Rightarrow> string" where
  "str_int i = (if i < 0 then CHR ''-'' # str_nat (nat (- i)) else str_nat (nat i))"

text \<open>
  An AUTOINCREMENT key: one more than the largest key the table ever held, which is the
  larger of the \<^verbatim>\<open>sqlite_sequence\<close> entry and the largest key present.
\<close>

definition next_rowid :: "int \<Rightarrow> int list \<Rightarrow> int" where
  "next_rowid seq ids = max seq (fold max ids 0) + 1"

text \<open>\<^verbatim>\<open>get_accounts\<close>: the active accounts, ordered by id.\<close>

definition get_accounts :: "bool \<Rightarrow> database \<Rightarrow> error + account_row list" where
  "get_accounts ok db =
     (if \<not> ok then Inl OperationalError
      else Inr (sort_key acc_id (filter acc_is_active (accounts db))))"

text \<open>
  \<^verbatim>\<open>save_account\<close>: \<^verbatim>\<open>INSERT OR REPLACE INTO accounts (account_id, name, balance,
  remarks, updated_at)\<close>. The dictionary must hold \<^verbatim>\<open>account_id\<close> and \<^verbatim>\<open>balance\<close>;
  \<^verbatim>\<open>name\<close> and \<^verbatim>\<open>remarks\<close> are read with \<^verbatim>\<open>.get\<close>. REPLACE deletes the row that has
  the same primary key and inserts the new one, so the columns that are not listed take
  their schema defaults (\<^verbatim>\<open>created_at = CURRENT_TIMESTAMP\<close>, \<^verbatim>\<open>is_active = 1\<close>). The
  connection has \<^verbatim>\<open>PRAGMA foreign_keys = ON\<close>, and \<^verbatim>\<open>bet_accounts.account_id\<close> refers
  to the account \<^verbatim>\<open>ON DELETE CASCADE\<close>: deleting the old row deletes the rows of
  \<^verbatim>\<open>bet_accounts\<close> that refer to it.
\<close>

record account_dict =
  ad_account_id :: int
  ad_name :: "string option"
  ad_balance :: rat
  ad_remarks :: "string option"

definition save_account :: "bool \<Rightarrow> nat \<Rightarrow> account_dict \<Rightarrow> database \<Rightarrow> error + database" where
  "save_account ok now account_data db =
     (if \<not> ok then Inl OperationalError
      else
        let aid = ad_account_id account_data;
            row = \<lparr>acc_id = aid,
                   acc_name = (case ad_name account_data of
                                 Some n \<Rightarrow> n | None \<Rightarrow> ''Account '' @ str_int aid),
                   acc_balance = ad_balance account_data,
                   acc_remarks = (case ad_remarks account_data of
                                    Some t \<Rightarrow> t | None \<Rightarrow> []),
                   acc_created_at = now,
                   acc_updated_at = now,
                   acc_is_active = True\<rparr>;
            replaced = list_ex (\<lambda>r. acc_id r = aid) (accounts db)
        in Inr (db\<lparr>accounts := filter (\<lambda>r. acc_id r \<noteq> aid) (accounts db) @ [row],
                   bet_accounts :=
                     (if replaced
                      then filter (\<lambda>r. ba_account_id r \<noteq> aid) (bet_accounts db)
                      else bet_accounts db)\<rparr>))"

text \<open>\<^verbatim>\<open>create_match\<close>: one row of \<^verbatim>\<open>matches\<close>, status \<^verbatim>\<open>upcoming\<close>; returns its key.\<close>

definition insert_match ::
  "nat \<Rightarrow> string \<Rightarrow> string \<Rightarrow> string \<Rightarrow> string \<Rightarrow> database \<Rightarrow> int \<times> database" where
  "insert_match now team1 team2 match_date match_time db =
     (let match_id = next_rowid (seq_matches db) (map m_id (matches db))
      in (match_id,
          db\<lparr>matches := matches db @
                [\<lparr>m_id = match_id, m_team1 = team1, m_team2 = team2,
                  m_match_date = match_date, m_match_time = match_time,
                  m_status = ''upcoming'', m_created_at = now, m_updated_at = now\<rparr>],
             seq_matches := match_id\<rparr>))"

record match_dict =
  md_team1 :: string
  md_team2 :: string
  md_match_date :: string
  md_match_time :: string

definition create_match :: "bool \<Rightarrow> nat \<Rightarrow> match_dict \<Rightarrow> database \<Rightarrow> error + int \<times> database" where
  "create_match ok now match_data db =
     (if \<not> ok then Inl OperationalError
      else Inr (insert_match now (md_team1 match_data) (md_team2 match_data)
                  (md_match_date match_data) (md_match_time match_data) db))"

text \<open>
  \<^verbatim>\<open>create_bet\<close>: inside one transaction, the match (unless \<^verbatim>\<open>match_id\<close> is given and
  truthy), the bet, and one \<^verbatim>\<open>bet_accounts\<close> row per account of team 1, then of team 2.
  An insert into \<^verbatim>\<open>bet_accounts\<close> fails on the primary key \<^verbatim>\<open>(bet_id, account_id)\<close> or
  on the foreign key to \<^verbatim>\<open>accounts\<close>; the insert into \<^verbatim>\<open>bets\<close> fails on the foreign key
  to \<^verbatim>\<open>matches\<close>. Any failure rolls the transaction back.
\<close>

record bet_dict =
  bd_match_id :: "int option"
  bd_team1 :: string
  bd_team2 :: string
  bd_match_date :: string
  bd_match_time :: string
  bd_team1_odds :: rat
  bd_team2_odds :: rat
  bd_betting_value :: rat
  bd_bet_amount1 :: rat
  bd_bet_amount2 :: rat
  bd_team1_accounts :: "int list"
  bd_team2_accounts :: "int list"

fun insert_bet_accounts ::
  "nat \<Rightarrow> int \<Rightarrow> int \<Rightarrow> rat \<Rightarrow> int list \<Rightarrow> database \<Rightarrow> error + database" where
  "insert_bet_accounts now bet_id team amount [] db = Inr db"
| "insert_bet_accounts now bet_id team amount (acc # accs) db =
     (if list_ex (\<lambda>r. ba_bet_id r = bet_id \<and> ba_account_id r = acc) (bet_accounts db)
      then Inl (IntegrityError
                  ''UNIQUE constraint failed: bet_accounts.bet_id, bet_accounts.account_id'')
      else if \<not> list_ex (\<lambda>r. acc_id r = acc) (accounts db)
      then Inl (IntegrityError ''FOREIGN KEY constraint failed'')
      else insert_bet_accounts now bet_id team amount accs
             (db\<lparr>bet_accounts := bet_accounts db @
                    [\<lparr>ba_bet_id = bet_id, ba_account_id = acc, ba_team_number = team,
                      ba_bet_amount = amount, ba_status = ''active'',
                      ba_created_at = now\<rparr>]\<rparr>))"

definition create_bet :: "bool \<Rightarrow> nat \<Rightarrow> bet_dict \<Rightarrow> database \<Rightarrow> error + int \<times> database" where
  "create_bet ok now bet_data db =
     (if \<not> ok then Inl OperationalError
      else
        let (match_id, db1) =
              (case bd_match_id bet_data of
                 Some m \<Rightarrow>
                   if m \<noteq> 0 then (m, db)
                   else insert_match now (bd_team1 bet_data) (bd_team2 bet_data)
                          (bd_match_date bet_data) (bd_match_time bet_data) db
               | None \<Rightarrow>
                   insert_match now (bd_team1 bet_data) (bd_team2 bet_data)
                     (bd_match_date bet_data) (bd_match_time bet_data) db)
        in if \<not> list_ex (\<lambda>m. m_id m = match_id) (matches db1)
           then Inl (IntegrityError ''FOREIGN KEY constraint failed'')
           else
             let bet_id = next_rowid (seq_bets db1) (map b_id (bets db1));
                 db2 = db1\<lparr>bets := bets db1 @
                             [\<lparr>b_id = bet_id, b_match_id = match_id,
                               b_team1_odds = bd_team1_odds bet_data,
                               b_team2_odds = bd_team2_odds bet_data,
                               b_betting_value = bd_betting_value bet_data,
                               b_status = ''active'',
                               b_created_at = now, b_updated_at = now\<rparr>],
                           seq_bets := bet_id\<rparr>
             in case insert_bet_accounts now bet_id 1 (bd_bet_amount1 bet_data)
                       (bd_team1_accounts bet_data) db2 of
                  Inl e \<Rightarrow> Inl e
                | Inr db3 \<Rightarrow>
                    (case insert_bet_accounts now bet_id 2 (bd_bet_amount2 bet_data)
                            (bd_team2_accounts bet_data) db3 of
                       Inl e \<Rightarrow> Inl e
                     | Inr db4 \<Rightarrow> Inr (bet_id, db4)))"

text \<open>\<^verbatim>\<open>get_active_bets\<close>: the active bets joined with their match, by date and time.\<close>

record active_bet =
  ab_bet_id :: int
  ab_team1 :: string
  ab_team2 :: string
  ab_match_date :: string
  ab_match_time :: string
  ab_team1_odds :: rat
  ab_team2_odds :: rat
  ab_betting_value :: rat
  ab_created_at :: nat

definition active_bet_of :: "bet_row \<Rightarrow> match_row \<Rightarrow> active_bet" where
  "active_bet_of b m =
     \<lparr>ab_bet_id = b_id b, ab_team1 = m_team1 m, ab_team2 = m_team2 m,
      ab_match_date = m_match_date m, ab_match_time = m_match_time m,
      ab_team1_odds = b_team1_odds b, ab_team2_odds = b_team2_odds b,
      ab_betting_value = b_betting_value b, ab_created_at = b_created_at b\<rparr>"

definition get_active_bets :: "bool \<Rightarrow> database \<Rightarrow> error + active_bet list" where
  "get_active_bets ok db =
     (if \<not> ok then Inl OperationalError
      else Inr (sort_key (\<lambda>r. (ab_match_date r, ab_match_time r))
                  (concat (map (\<lambda>b. map (active_bet_of b)
                                        (filter (\<lambda>m. m_id m = b_match_id b) (matches db)))
                               (filter (\<lambda>b. b_status b = ''active'') (bets db))))))"

text \<open>
  \<^verbatim>\<open>get_bet_details\<close>: the bet with its match, and its allocations joined with their
  accounts, ordered by team number and account id. An unknown bet raises \<^verbatim>\<open>ValueError\<close>.
\<close>

record detail_account =
  da_team_number :: int
  da_bet_amount :: rat
  da_account_id :: int
  da_name :: string
  da_balance :: rat

record bet_details =
  bdt_bet_id :: int
  bdt_team1 :: string
  bdt_team2 :: string
  bdt_match_date :: string
  bdt_match_time :: string
  bdt_team1_odds :: rat
  bdt_team2_odds :: rat
  bdt_betting_value :: rat
  bdt_accounts :: "detail_account list"

definition bet_account_details :: "int \<Rightarrow> database \<Rightarrow> detail_account list" where
  "bet_account_details bet_id db =
     sort_key (\<lambda>r. (da_team_number r, da_account_id r))
       (concat (map (\<lambda>ba. map (\<lambda>a. \<lparr>da_team_number = ba_team_number ba,
                                      da_bet_amount = ba_bet_amount ba,
                                      da_account_id = acc_id a,
                                      da_name = acc_name a,
                                      da_balance = acc_balance a\<rparr>)
                               (filter (\<lambda>a. acc_id a = ba_account_id ba) (accounts db)))
                    (filter (\<lambda>ba. ba_bet_id ba = bet_id) (bet_accounts db))))"

definition get_bet_details :: "bool \<Rightarrow> int \<Rightarrow> database \<Rightarrow> error + bet_details" where
  "get_bet_details ok bet_id db =
     (if \<not> ok then Inl OperationalError
      else
        case concat (map (\<lambda>b. map (\<lambda>m. (b, m))
                                  (filter (\<lambda>m. m_id m = b_match_id b) (matches db)))
                         (filter (\<lambda>b. b_id b = bet_id) (bets db))) of
          [] \<Rightarrow> Inl (ValueError (''Bet '' @ str_int bet_id @ '' not found''))
        | (b, m) # _ \<Rightarrow>
            Inr \<lparr>bdt_bet_id = bet_id, bdt_team1 = m_team1 m, bdt_team2 = m_team2 m,
                 bdt_match_date = m_match_date m, bdt_match_time = m_match_time m,
                 bdt_team1_odds = b_team1_odds b, bdt_team2_odds = b_team2_odds b,
                 bdt_betting_value = b_betting_value b,
                 bdt_accounts = bet_account_details bet_id db\<rparr>)"

text \<open>
  \<^verbatim>\<open>save_result\<close>: inside one transaction, set the bet's status to \<^verbatim>\<open>completed\<close> (no
  condition on the status it had), insert one row of \<^verbatim>\<open>results\<close> (foreign key to the
  bet), and for a win add each listed profit to its account. \<^verbatim>\<open>winning_team\<close>,
  \<^verbatim>\<open>profit_amount\<close>, \<^verbatim>\<open>loss_amount\<close> and \<^verbatim>\<open>cashout_details\<close> are read with \<^verbatim>\<open>.get\<close>;
  \<^verbatim>\<open>winning_accounts\<close> is read with a subscript, only for a win.
\<close>

record result_dict =
  rd_bet_id :: int
  rd_winning_team :: "int option"
  rd_result_type :: string
  rd_profit_amount :: "rat option"
  rd_loss_amount :: "rat option"
  rd_cashout_details :: "(int \<times> rat) list option"
  rd_winning_accounts :: "(int \<times> rat) list option"

fun credit_accounts :: "nat \<Rightarrow> (int \<times> rat) list \<Rightarrow> account_row list \<Rightarrow> account_row list" where
  "credit_accounts now [] rows = rows"
| "credit_accounts now ((aid, profit) # ws) rows =
     credit_accounts now ws
       (map (\<lambda>r. if acc_id r = aid
                 then r\<lparr>acc_balance := acc_balance r + profit, acc_updated_at := now\<rparr>
                 else r) rows)"

definition save_result :: "bool \<Rightarrow> nat \<Rightarrow> result_dict \<Rightarrow> database \<Rightarrow> error + database" where
  "save_result ok now result_data db =
     (if \<not> ok then Inl OperationalError
      else
        let bid = rd_bet_id result_data;
            db1 = db\<lparr>bets := map (\<lambda>b. if b_id b = bid
                                       then b\<lparr>b_status := ''completed'', b_updated_at := now\<rparr>
                                       else b) (bets db)\<rparr>
        in if \<not> list_ex (\<lambda>b. b_id b = bid) (bets db1)
           then Inl (IntegrityError ''FOREIGN KEY constraint failed'')
           else
             let rid = next_rowid (seq_results db1) (map r_id (results db1));
                 db2 = db1\<lparr>results := results db1 @
                             [\<lparr>r_id = rid, r_bet_id = bid,
                               r_winning_team = rd_winning_team result_data,
                               r_result_type = rd_result_type result_data,
                               r_profit_amount = rd_profit_amount result_data,
                               r_loss_amount = rd_loss_amount result_data,
                               r_cashout_details =
                                 (case rd_cashout_details result_data of
                                    Some cs \<Rightarrow> cs | None \<Rightarrow> []),
                               r_created_at = now\<rparr>],
                           seq_results := rid\<rparr>
             in if rd_result_type result_data = ''win''
                then (case rd_winning_accounts result_data of
                        None \<Rightarrow> Inl (KeyError ''winning_accounts'')
                      | Some ws \<Rightarrow>
                          Inr (db2\<lparr>accounts := credit_accounts now ws (accounts db2)\<rparr>))
                else Inr db2)"

text \<open>
  \<^verbatim>\<open>get_settings\<close>: the settings row as a dictionary. Its \<^verbatim>\<open>except\<close> branch does not
  re-raise: it returns the dictionary of the two default values.
\<close>

record settings_dict =
  sd_setting_id :: "int option"
  sd_min_transfer :: rat
  sd_default_betting_value :: rat
  sd_updated_at :: "nat option"

definition read_settings :: "bool \<Rightarrow> database \<Rightarrow> error + settings_dict" where
  "read_settings ok db =
     (if \<not> ok then Inl OperationalError
      else Inr \<lparr>sd_setting_id = Some 1,
                sd_min_transfer = s_min_transfer (settings db),
                sd_default_betting_value = s_default_betting_value (settings db),
                sd_updated_at = Some (s_updated_at (settings db))\<rparr>)"

definition get_settings :: "bool \<Rightarrow> database \<Rightarrow> error + settings_dict" where
  "get_settings ok db =
     (case read_settings ok db of
        Inr d \<Rightarrow> Inr d
      | Inl e \<Rightarrow> Inr \<lparr>sd_setting_id = None, sd_min_transfer = 250,
                      sd_default_betting_value = 2100, sd_updated_at = None\<rparr>)"

text \<open>\<^verbatim>\<open>save_settings\<close>: update the singleton row.\<close>

definition save_settings :: "bool \<Rightarrow> nat \<Rightarrow> rat \<Rightarrow> rat \<Rightarrow> database \<Rightarrow> error + database" where
  "save_settings ok now min_transfer default_betting_value db =
     (if \<not> ok then Inl OperationalError
      else Inr (db\<lparr>settings := \<lparr>s_min_transfer = min_transfer,
                                 s_default_betting_value = default_betting_value,
                                 s_updated_at = now\<rparr>\<rparr>))"

text \<open>
  \<^verbatim>\<open>get_bet_history\<close>: the completed bets joined with their match and, by a left join,
  their results, latest match first; then the allocations of each row's bet. Its
  \<^verbatim>\<open>except\<close> branch does not re-raise: it returns an empty table.
\<close>

record history_row =
  h_bet_id :: int
  h_team1 :: string
  h_team2 :: string
  h_match_date :: string
  h_match_time :: string
  h_team1_odds :: rat
  h_team2_odds :: rat
  h_betting_value :: rat
  h_created_at :: nat
  h_result :: "result_row option"
  h_accounts :: "detail_account list"

definition history_row_of ::
  "database \<Rightarrow> bet_row \<Rightarrow> match_row \<Rightarrow> result_row option \<Rightarrow> history_row" where
  "history_row_of db b m r =
     \<lparr>h_bet_id = b_id b, h_team1 = m_team1 m, h_team2 = m_team2 m,
      h_match_date = m_match_date m, h_match_time = m_match_time m,
      h_team1_odds = b_team1_odds b, h_team2_odds = b_team2_odds b,
      h_betting_value = b_betting_value b, h_created_at = b_created_at b,
      h_result = r, h_accounts = bet_account_details (b_id b) db\<rparr>"

definition read_bet_history :: "bool \<Rightarrow> database \<Rightarrow> error + history_row list" where
  "read_bet_history ok db =
     (if \<not> ok then Inl OperationalError
      else Inr (rev (sort_key (\<lambda>r. (h_match_date r, h_match_time r))
                  (concat (map (\<lambda>b.
                     concat (map (\<lambda>m.
                       case filter (\<lambda>r. r_bet_id r = b_id b) (results db) of
                         [] \<Rightarrow> [history_row_of db b m None]
                       | rs \<Rightarrow> map (\<lambda>r. history_row_of db b m (Some r)) rs)
                       (filter (\<lambda>m. m_id m = b_match_id b) (matches db))))
                     (filter (\<lambda>b. b_status b = ''completed'') (bets db)))))))"

definition get_bet_history :: "bool \<Rightarrow> database \<Rightarrow> error + history_row list" where
  "get_bet_history ok db =
     (case read_bet_history ok db of Inr rows \<Rightarrow> Inr rows | Inl e \<Rightarrow> Inr [])"

section \<open>The front end (stake.py)\<close>

text \<open>
  The script keeps two snapshots of the store in \<^verbatim>\<open>st.session_state\<close>:
  \<^verbatim>\<open>account_data\<close> (the table returned by \<^verbatim>\<open>get_accounts\<close>) and \<^verbatim>\<open>active_bets\<close>.
  A handler runs against the pair of the store and the session. It makes its calls to
  the store in a fixed order; \<open>io k\<close> says whether the \<open>k\<close>-th of them is carried out
  by SQLite (see the section on the store).
\<close>

record world =
  db :: database
  account_data :: "account_row list"
  active_bets :: "active_bet list"

type_synonym storage = "nat \<Rightarrow> bool"

text \<open>A store that carries out every call, and one that fails at call \<open>n\<close> only.\<close>

definition working :: storage where
  "working k = True"

definition failing_at :: "nat \<Rightarrow> storage" where
  "failing_at n k = (k \<noteq> n)"

text \<open>
  What a handler shows: the messages of the validation chain, the message of its
  \<^verbatim>\<open>except Exception\<close> branch, or success. \<open>ScriptError\<close> is an exception raised
  outside every \<^verbatim>\<open>try\<close>, which ends the script run.
\<close>

datatype outcome =
    ScriptError error
  | SelectBothTeams
  | SelectTeam1
  | SelectTeam2
  | UnequalAccounts nat nat
  | InsufficientBalance "(int \<times> rat \<times> string) list"
  | Failed error
  | Success

text \<open>
  \<^verbatim>\<open>update_account_balance\<close>: look the account up in the session's table, change the
  balance there (in place), and write the row back with \<^verbatim>\<open>db.save_account\<close>. The row
  passed on is the whole row of the table; \<^verbatim>\<open>save_account\<close> uses its id, name, balance
  and remarks. An exception leaves the session's table as it then is.
\<close>

fun first_index :: "('a \<Rightarrow> bool) \<Rightarrow> 'a list \<Rightarrow> nat option" where
  "first_index P [] = None"
| "first_index P (x # xs) = (if P x then Some 0 else map_option Suc (first_index P xs))"

definition write_back :: "bool \<Rightarrow> nat \<Rightarrow> nat \<Rightarrow> rat \<Rightarrow> world \<Rightarrow> error option \<times> world" where
  "write_back ok now idx new_balance w =
     (let row = (account_data w ! idx)\<lparr>acc_balance := new_balance\<rparr>;
          w' = w\<lparr>account_data := (account_data w)[idx := row]\<rparr>
      in case save_account ok now
                \<lparr>ad_account_id = acc_id row, ad_name = Some (acc_name row),
                 ad_balance = acc_balance row, ad_remarks = Some (acc_remarks row)\<rparr>
                (db w') of
           Inl e \<Rightarrow> (Some e, w')
         | Inr db' \<Rightarrow> (None, w'\<lparr>db := db'\<rparr>))"

definition update_account_balance ::
  "bool \<Rightarrow> nat \<Rightarrow> int \<Rightarrow> rat \<Rightarrow> string \<Rightarrow> world \<Rightarrow> error option \<times> world" where
  "update_account_balance ok now account_id amount operation w =
     (case first_index (\<lambda>r. acc_id r = account_id) (account_data w) of
        None \<Rightarrow>
          (Some (ValueError (''Account '' @ str_int account_id @ '' not found.'')), w)
      | Some idx \<Rightarrow>
          if operation = ''add''
          then write_back ok now idx (acc_balance (account_data w ! idx) + amount) w
          else if acc_balance (account_data w ! idx) < amount
          then (Some (ValueError (''Insufficient balance in account ''
                                   @ str_int account_id @ ''.'')), w)
          else write_back ok now idx (acc_balance (account_data w ! idx) - amount) w)"

text \<open>
  The betting form. On submit: the chain of selection checks; then, inside \<^verbatim>\<open>try\<close>,
  the balance check of every account of team 1 and then of team 2 against the session's
  table (\<^verbatim>\<open>.iloc[0]\<close> raises \<^verbatim>\<open>IndexError\<close> for an id that is not in the table), which
  collects \<^verbatim>\<open>(acc, required, team)\<close> for each balance below the stake; if the collection
  is empty, \<^verbatim>\<open>db.create_bet\<close>, then one \<^verbatim>\<open>update_account_balance(acc, amount,
  'subtract')\<close> per account, then the two snapshots are read again.
\<close>

record bet_form =
  f_betting_value :: rat
  f_show_accurate :: bool
  f_team1 :: string
  f_odds1 :: rat
  f_team1_accounts :: "int list"
  f_team2 :: string
  f_odds2 :: rat
  f_team2_accounts :: "int list"
  f_match_date :: string
  f_match_time :: string

fun insufficient_accounts ::
  "account_row list \<Rightarrow> int list \<Rightarrow> rat \<Rightarrow> string \<Rightarrow> error + (int \<times> rat \<times> string) list" where
  "insufficient_accounts data [] bet_amount team = Inr []"
| "insufficient_accounts data (acc # accs) bet_amount team =
     (case filter (\<lambda>r. acc_id r = acc) data of
        [] \<Rightarrow> Inl IndexError
      | account # _ \<Rightarrow>
          (case insufficient_accounts data accs bet_amount team of
             Inl e \<Rightarrow> Inl e
           | Inr rest \<Rightarrow>
               Inr ((if acc_balance account < bet_amount
                     then [(acc, bet_amount, team)] else []) @ rest)))"

fun debit_accounts ::
  "storage \<Rightarrow> nat \<Rightarrow> nat \<Rightarrow> int list \<Rightarrow> rat \<Rightarrow> world \<Rightarrow> error option \<times> world" where
  "debit_accounts io now k [] amount w = (None, w)"
| "debit_accounts io now k (acc # accs) amount w =
     (case update_account_balance (io k) now acc amount ''subtract'' w of
        (Some e, w') \<Rightarrow> (Some e, w')
      | (None, w') \<Rightarrow> debit_accounts io now (Suc k) accs amount w')"

definition refresh_session :: "storage \<Rightarrow> nat \<Rightarrow> world \<Rightarrow> error option \<times> world" where
  "refresh_session io k w =
     (case get_active_bets (io k) (db w) of
        Inl e \<Rightarrow> (Some e, w)
      | Inr ab \<Rightarrow>
          (case get_accounts (io (Suc k)) (db w) of
             Inl e \<Rightarrow> (Some e, w\<lparr>active_bets := ab\<rparr>)
           | Inr ad \<Rightarrow> (None, w\<lparr>active_bets := ab, account_data := ad\<rparr>)))"

definition place_bet ::
  "storage \<Rightarrow> nat \<Rightarrow> bet_form \<Rightarrow> rat \<Rightarrow> rat \<Rightarrow> world \<Rightarrow> outcome \<times> world" where
  "place_bet io now f bet_amount1 bet_amount2 w =
     (case create_bet (io 0) now
             \<lparr>bd_match_id = None, bd_team1 = f_team1 f, bd_team2 = f_team2 f,
              bd_match_date = f_match_date f, bd_match_time = f_match_time f,
              bd_team1_odds = f_odds1 f, bd_team2_odds = f_odds2 f,
              bd_betting_value = f_betting_value f,
              bd_bet_amount1 = bet_amount1, bd_bet_amount2 = bet_amount2,
              bd_team1_accounts = f_team1_accounts f,
              bd_team2_accounts = f_team2_accounts f\<rparr> (db w) of
        Inl e \<Rightarrow> (Failed e, w)
      | Inr (bet_id, db') \<Rightarrow>
          (case debit_accounts io now 1 (f_team1_accounts f) bet_amount1 (w\<lparr>db := db'\<rparr>) of
             (Some e, w1) \<Rightarrow> (Failed e, w1)
           | (None, w1) \<Rightarrow>
               (case debit_accounts io now (1 + length (f_team1_accounts f))
                       (f_team2_accounts f) bet_amount2 w1 of
                  (Some e, w2) \<Rightarrow> (Failed e, w2)
                | (None, w2) \<Rightarrow>
                    (case refresh_session io
                            (1 + length (f_team1_accounts f) + length (f_team2_accounts f))
                            w2 of
                       (Some e, w3) \<Rightarrow> (Failed e, w3)
                     | (None, w3) \<Rightarrow> (Success, w3)))))"

text \<open>
  Drawing the form. \<^verbatim>\<open>st.number_input(min_value, max_value, ...)\<close> returns a float
  inside its range (betting value 100 to 10000, each odds 1 to 100): the number held by
  the widget is read as the nearest double, and a number outside the range makes the
  widget raise. The stakes are computed right after the odds, outside every \<^verbatim>\<open>try\<close>.
  Inside these ranges the quotient lies between 1 and 10000, so the calculator raises
  nothing and both stakes are finite numbers, which \<open>amount_value\<close> reads (lemma
  \<open>stake_of_widget_values\<close> below); the branches of \<open>draw_form\<close> for an exception of
  the calculator and for a stake that is no finite number are never taken (lemma
  \<open>draw_form_error\<close>). The amounts and balances of the ledger are modelled by their
  exact values.
\<close>

definition number_input :: "rat \<Rightarrow> rat \<Rightarrow> rat \<Rightarrow> error + rat" where
  "number_input min_value max_value v =
     (case round_double v of
        Fin x \<Rightarrow>
          if min_value \<le> x \<and> x \<le> max_value then Inr x else Inl StreamlitAPIException
      | _ \<Rightarrow> Inl StreamlitAPIException)"

definition amount_value :: "pynum \<Rightarrow> rat option" where
  "amount_value n =
     (case n of
        PyInt k \<Rightarrow> Some (of_int k)
      | PyFloat a \<Rightarrow> (case a of Fin x \<Rightarrow> Some x | _ \<Rightarrow> None))"

definition draw_form :: "bet_form \<Rightarrow> error + bet_form \<times> rat \<times> rat" where
  "draw_form f =
     (case number_input 100 10000 (f_betting_value f) of
        Inl e \<Rightarrow> Inl e
      | Inr betting_value \<Rightarrow>
     (case number_input 1 100 (f_odds1 f) of
        Inl e \<Rightarrow> Inl e
      | Inr odds1 \<Rightarrow>
     (case calculate_bet_amount (Fin betting_value) (Fin odds1) (f_show_accurate f) of
        Inl e \<Rightarrow> Inl e
      | Inr bet_amount1 \<Rightarrow>
     (case number_input 1 100 (f_odds2 f) of
        Inl e \<Rightarrow> Inl e
      | Inr odds2 \<Rightarrow>
     (case calculate_bet_amount (Fin betting_value) (Fin odds2) (f_show_accurate f) of
        Inl e \<Rightarrow> Inl e
      | Inr bet_amount2 \<Rightarrow>
          (case amount_value bet_amount1 of
             None \<Rightarrow> Inl OverflowError
           | Some amount1 \<Rightarrow>
               (case amount_value bet_amount2 of
                  None \<Rightarrow> Inl OverflowError
                | Some amount2 \<Rightarrow>
                    Inr (f\<lparr>f_betting_value := betting_value,
                           f_odds1 := odds1, f_odds2 := odds2\<rparr>,
                         amount1, amount2))))))))"

text \<open>The handler of the submit button, for the drawn form and its two stakes.\<close>

definition submit_form ::
  "storage \<Rightarrow> nat \<Rightarrow> bet_form \<Rightarrow> rat \<Rightarrow> rat \<Rightarrow> world \<Rightarrow> outcome \<times> world" where
  "submit_form io now f bet_amount1 bet_amount2 w =
     (if f_team1_accounts f = [] \<and> f_team2_accounts f = [] then (SelectBothTeams, w)
      else if f_team1_accounts f = [] then (SelectTeam1, w)
      else if f_team2_accounts f = [] then (SelectTeam2, w)
      else if length (f_team1_accounts f) \<noteq> length (f_team2_accounts f)
      then (UnequalAccounts (length (f_team1_accounts f)) (length (f_team2_accounts f)), w)
      else
        (case insufficient_accounts (account_data w) (f_team1_accounts f)
                bet_amount1 ''Team 1'' of
           Inl e \<Rightarrow> (Failed e, w)
         | Inr short1 \<Rightarrow>
             (case insufficient_accounts (account_data w) (f_team2_accounts f)
                     bet_amount2 ''Team 2'' of
                Inl e \<Rightarrow> (Failed e, w)
              | Inr short2 \<Rightarrow>
                  if short1 @ short2 \<noteq> [] then (InsufficientBalance (short1 @ short2), w)
                  else place_bet io now f bet_amount1 bet_amount2 w)))"

definition betting_form :: "storage \<Rightarrow> nat \<Rightarrow> bet_form \<Rightarrow> world \<Rightarrow> outcome \<times> world" where
  "betting_form io now f w =
     (case draw_form f of
        Inl e \<Rightarrow> (ScriptError e, w)
      | Inr (drawn, bet_amount1, bet_amount2) \<Rightarrow>
          submit_form io now drawn bet_amount1 bet_amount2 w)"

text \<open>
  Settlement. Each bet of the session's \<^verbatim>\<open>active_bets\<close> has its own buttons; \<open>bet\<close>
  is that row. ``Apply Win'': read the bet's details; for each allocation of the winning
  side, \<^verbatim>\<open>profit = bet_amount * odds\<close>, \<^verbatim>\<open>update_account_balance(account_id, profit)\<close>,
  and the pair is appended to \<^verbatim>\<open>winning_accounts\<close>; then \<^verbatim>\<open>db.save_result\<close> with
  \<^verbatim>\<open>winning_team\<close>, \<^verbatim>\<open>result_type = 'win'\<close> and \<^verbatim>\<open>winning_accounts\<close> (no
  \<^verbatim>\<open>profit_amount\<close>); then both snapshots are read again.
\<close>

fun pay_winners ::
  "storage \<Rightarrow> nat \<Rightarrow> nat \<Rightarrow> int \<Rightarrow> rat \<Rightarrow> detail_account list \<Rightarrow> world
     \<Rightarrow> (error + (int \<times> rat) list \<times> nat) \<times> world" where
  "pay_winners io now k side odds [] w = (Inr ([], k), w)"
| "pay_winners io now k side odds (acc # accs) w =
     (if da_team_number acc = side
      then
        let profit = da_bet_amount acc * odds
        in case update_account_balance (io k) now (da_account_id acc) profit ''add'' w of
             (Some e, w') \<Rightarrow> (Inl e, w')
           | (None, w') \<Rightarrow>
               (case pay_winners io now (Suc k) side odds accs w' of
                  (Inl e, w'') \<Rightarrow> (Inl e, w'')
                | (Inr (ws, k'), w'') \<Rightarrow> (Inr ((da_account_id acc, profit) # ws, k'), w''))
      else pay_winners io now k side odds accs w)"

definition apply_win :: "storage \<Rightarrow> nat \<Rightarrow> active_bet \<Rightarrow> string \<Rightarrow> world \<Rightarrow> outcome \<times> world" where
  "apply_win io now bet winning_team w =
     (case get_bet_details (io 0) (ab_bet_id bet) (db w) of
        Inl e \<Rightarrow> (Failed e, w)
      | Inr details \<Rightarrow>
          let side = (if winning_team = ab_team1 bet then 1 else 2);
              odds = (if winning_team = ab_team1 bet
                      then ab_team1_odds bet else ab_team2_odds bet)
          in case pay_winners io now 1 side odds (bdt_accounts details) w of
               (Inl e, w1) \<Rightarrow> (Failed e, w1)
             | (Inr (winning_accounts, k), w1) \<Rightarrow>
                 (case save_result (io k) now
                         \<lparr>rd_bet_id = ab_bet_id bet, rd_winning_team = Some side,
                          rd_result_type = ''win'', rd_profit_amount = None,
                          rd_loss_amount = None, rd_cashout_details = None,
                          rd_winning_accounts = Some winning_accounts\<rparr> (db w1) of
                    Inl e \<Rightarrow> (Failed e, w1)
                  | Inr db' \<Rightarrow>
                      (case refresh_session io (Suc k) (w1\<lparr>db := db'\<rparr>) of
                         (Some e, w2) \<Rightarrow> (Failed e, w2)
                       | (None, w2) \<Rightarrow> (Success, w2))))"

text \<open>
  ``Apply Loss'': \<^verbatim>\<open>db.save_result\<close> with \<^verbatim>\<open>winning_team = 0\<close> and
  \<^verbatim>\<open>result_type = 'loss'\<close>; then the active bets are read again.
\<close>

definition apply_loss :: "storage \<Rightarrow> nat \<Rightarrow> active_bet \<Rightarrow> world \<Rightarrow> outcome \<times> world" where
  "apply_loss io now bet w =
     (case save_result (io 0) now
             \<lparr>rd_bet_id = ab_bet_id bet, rd_winning_team = Some 0,
              rd_result_type = ''loss'', rd_profit_amount = None,
              rd_loss_amount = None, rd_cashout_details = None,
              rd_winning_accounts = None\<rparr> (db w) of
        Inl e \<Rightarrow> (Failed e, w)
      | Inr db' \<Rightarrow>
          (case get_active_bets (io 1) db' of
             Inl e \<Rightarrow> (Failed e, w\<lparr>db := db'\<rparr>)
           | Inr ab \<Rightarrow> (Success, w\<lparr>db := db', active_bets := ab\<rparr>)))"


definition complete_cashout ::
  "storage \<Rightarrow> nat \<Rightarrow> active_bet \<Rightarrow> (int \<times> rat) list \<Rightarrow> world \<Rightarrow> outcome \<times> world" where
  "complete_cashout io now bet cashout_details w =
     (case save_result (io 0) now
             \<lparr>rd_bet_id = ab_bet_id bet, rd_winning_team = Some 0,
              rd_result_type = ''cashout'', rd_profit_amount = None,
              rd_loss_amount = None, rd_cashout_details = Some cashout_details,
              rd_winning_accounts = None\<rparr> (db w) of
        Inl e \<Rightarrow> (Failed e, w)
      | Inr db' \<Rightarrow>
          (case refresh_session io 1 (w\<lparr>db := db'\<rparr>) of
             (Some e, w') \<Rightarrow> (Failed e, w')
           | (None, w') \<Rightarrow> (Success, w')))"

section \<open>Reading the snapshots, and sample ledgers\<close>

text \<open>
  The balance the session's table shows for an account id (the first row with that id),
  and whether it is below an amount.
\<close>

definition cached_balance :: "account_row list \<Rightarrow> int \<Rightarrow> rat option" where
  "cached_balance data account_id =
     (case filter (\<lambda>r. acc_id r = account_id) data of
        [] \<Rightarrow> None
      | row # _ \<Rightarrow> Some (acc_balance row))"


text \<open>The balances of a table of accounts, by id.\<close>

definition balances :: "account_row list \<Rightarrow> (int \<times> rat) list" where
  "balances rows = map (\<lambda>r. (acc_id r, acc_balance r)) rows"

text \<open>
  A ledger with two funded accounts and a third one that is inactive, no bets, and
  settings that differ from the defaults; the session that was loaded from it.
\<close>

definition sample_account :: "int \<Rightarrow> rat \<Rightarrow> bool \<Rightarrow> account_row" where
  "sample_account i b active =
     \<lparr>acc_id = i, acc_name = ''Account '' @ str_int i, acc_balance = b, acc_remarks = [],
      acc_created_at = 1, acc_updated_at = 1, acc_is_active = active\<rparr>"

definition opening_ledger :: database where
  "opening_ledger =
     \<lparr>accounts = [sample_account 1 5000 True, sample_account 2 5000 True,
                  sample_account 3 500 False],
      matches = [], bets = [], bet_accounts = [], results = [],
      settings = \<lparr>s_min_transfer = 500, s_default_betting_value = 3000, s_updated_at = 2\<rparr>,
      seq_matches = 0, seq_bets = 0, seq_results = 0\<rparr>"

definition opening_world :: world where
  "opening_world =
     \<lparr>db = opening_ledger,
      account_data = [sample_account 1 5000 True, sample_account 2 5000 True],
      active_bets = []\<rparr>"

text \<open>A bet of 2100 at odds 2 and 3, account 1 on team 1 and account 2 on team 2.\<close>

definition sample_form :: bet_form where
  "sample_form =
     \<lparr>f_betting_value = 2100, f_show_accurate = False,
      f_team1 = ''Chennai Super Kings'', f_odds1 = 2, f_team1_accounts = [1],
      f_team2 = ''Mumbai Indians'', f_odds2 = 3, f_team2_accounts = [2],
      f_match_date = ''2025-04-01'', f_match_time = ''3:30 PM''\<rparr>"

text \<open>
  The ledger as \<^verbatim>\<open>db.create_bet\<close> leaves it for that bet at time 7 (match 1, bet 1 and
  the two allocations, no balance touched yet), and a session loaded from it.
\<close>

definition sample_bet_dict :: bet_dict where
  "sample_bet_dict =
     \<lparr>bd_match_id = None, bd_team1 = ''Chennai Super Kings'', bd_team2 = ''Mumbai Indians'',
      bd_match_date = ''2025-04-01'', bd_match_time = ''3:30 PM'',
      bd_team1_odds = 2, bd_team2_odds = 3, bd_betting_value = 2100,
      bd_bet_amount1 = 1050, bd_bet_amount2 = 700,
      bd_team1_accounts = [1], bd_team2_accounts = [2]\<rparr>"

definition ledger_with_bet :: database where
  "ledger_with_bet =
     opening_ledger
       \<lparr>matches := [\<lparr>m_id = 1, m_team1 = ''Chennai Super Kings'', m_team2 = ''Mumbai Indians'',
                      m_match_date = ''2025-04-01'', m_match_time = ''3:30 PM'',
                      m_status = ''upcoming'', m_created_at = 7, m_updated_at = 7\<rparr>],
        bets := [\<lparr>b_id = 1, b_match_id = 1, b_team1_odds = 2, b_team2_odds = 3,
                   b_betting_value = 2100, b_status = ''active'',
                   b_created_at = 7, b_updated_at = 7\<rparr>],
        bet_accounts := [\<lparr>ba_bet_id = 1, ba_account_id = 1, ba_team_number = 1,
                           ba_bet_amount = 1050, ba_status = ''active'', ba_created_at = 7\<rparr>,
                         \<lparr>ba_bet_id = 1, ba_account_id = 2, ba_team_number = 2,
                           ba_bet_amount = 700, ba_status = ''active'', ba_created_at = 7\<rparr>],
        seq_matches := 1, seq_bets := 1\<rparr>"

definition sample_active_bet :: active_bet where
  "sample_active_bet =
     \<lparr>ab_bet_id = 1, ab_team1 = ''Chennai Super Kings'', ab_team2 = ''Mumbai Indians'',
      ab_match_date = ''2025-04-01'', ab_match_time = ''3:30 PM'',
      ab_team1_odds = 2, ab_team2_odds = 3, ab_betting_value = 2100, ab_created_at = 7\<rparr>"

definition world_with_bet :: world where
  "world_with_bet =
     \<lparr>db = ledger_with_bet,
      account_data = [sample_account 1 5000 True, sample_account 2 5000 True],
      active_bets = [sample_active_bet]\<rparr>"

text \<open>The dictionaries that ``Apply Loss'' and ``Apply Win'' pass to the store for bet 1.\<close>

definition loss_of_bet_1 :: result_dict where
  "loss_of_bet_1 =
     \<lparr>rd_bet_id = 1, rd_winning_team = Some 0, rd_result_type = ''loss'',
      rd_profit_amount = None, rd_loss_amount = None, rd_cashout_details = None,
      rd_winning_accounts = None\<rparr>"

definition win_of_bet_1 :: result_dict where
  "win_of_bet_1 =
     \<lparr>rd_bet_id = 1, rd_winning_team = Some 1, rd_result_type = ''win'',
      rd_profit_amount = None, rd_loss_amount = None, rd_cashout_details = None,
      rd_winning_accounts = Some [(1, 2100)]\<rparr>"



definition mirrored_form :: bet_form where
  "mirrored_form = sample_form\<lparr>f_team2_accounts := [1]\<rparr>"

definition lopsided_form :: bet_form where
  "lopsided_form = sample_form\<lparr>f_team1_accounts := [1, 2], f_team2_accounts := [1]\<rparr>"

text \<open>The rows of a table of accounts that have a given id.\<close>

definition account_rows :: "account_row list \<Rightarrow> int \<Rightarrow> account_row list" where
  "account_rows rows account_id = filter (\<lambda>r. acc_id r = account_id) rows"



definition win_crediting_account_3 :: result_dict where
  "win_crediting_account_3 = win_of_bet_1\<lparr>rd_winning_accounts := Some [(3, 100)]\<rparr>"



section \<open>Properties of the rounding\<close>

text \<open>The exponent computed by \<open>ilog2\<close> is the one of the binade.\<close>

lemma ilog2_bounds:
  assumes "0 < q"
  shows "2 powi (ilog2 q) \<le> q \<and> q < 2 powi (ilog2 q + 1)"
proof -
  obtain a b where ab: "quotient_of q = (a, b)" by (cases "quotient_of q")
  then have b: "0 < b" and q: "q = of_int a / of_int b"
    by (auto dest: quotient_of_denom_pos quotient_of_div)
  with assms have a: "0 < a"
    by (simp add: zero_less_divide_iff)
  define k where "k = bitlen a - bitlen b"
  from bitlen_bounds [OF a] have a_hi: "a < 2 ^ nat (bitlen a)" by simp
  from bitlen_bounds [OF b] have b_lo: "2 ^ nat (bitlen b - 1) \<le> b" by simp
  have la: "1 \<le> bitlen a" and lb: "1 \<le> bitlen b"
    using a b by (auto simp: bitlen_alt_def)
  have "(of_int a :: rat) < 2 powi (bitlen a)"
  proof -
    have "(of_int a :: rat) < of_int (2 ^ nat (bitlen a))"
      using a_hi by (simp only: of_int_less_iff)
    then show ?thesis using la by (simp add: power_int_def)
  qed
  moreover have "(2::rat) powi (bitlen b - 1) \<le> of_int b"
  proof -
    have "(of_int (2 ^ nat (bitlen b - 1)) :: rat) \<le> of_int b"
      using b_lo by (simp only: of_int_le_iff)
    then show ?thesis using lb by (simp add: power_int_def)
  qed
  ultimately have "of_int a * (2::rat) powi (bitlen b - 1) < 2 powi (bitlen a) * of_int b"
    using a b by (intro mult_less_le_imp_less) auto
  then have "q * 2 powi (bitlen b - 1) < (2::rat) powi (bitlen a)"
    using b by (simp add: q field_simps)
  then have "q < (2::rat) powi (bitlen a) / 2 powi (bitlen b - 1)"
    by (simp add: field_simps)
  also have "\<dots> = 2 powi (k + 1)"
    by (simp add: k_def power_int_diff [symmetric] algebra_simps)
  finally have upper: "q < 2 powi (k + 1)" .
  have l2: "(2::rat) powi (bitlen a - 1) \<le> of_int a"
  proof -
    from bitlen_bounds [OF a] have "2 ^ nat (bitlen a - 1) \<le> a" by simp
    then have "(of_int (2 ^ nat (bitlen a - 1)) :: rat) \<le> of_int a"
      by (simp only: of_int_le_iff)
    then show ?thesis using la by (simp add: power_int_def)
  qed
  have u2: "(of_int b :: rat) < 2 powi (bitlen b)"
  proof -
    from bitlen_bounds [OF b] have "b < 2 ^ nat (bitlen b)" by simp
    then have "(of_int b :: rat) < of_int (2 ^ nat (bitlen b))"
      by (simp only: of_int_less_iff)
    then show ?thesis using lb by (simp add: power_int_def)
  qed
  have "(2::rat) powi (bitlen a - 1) * of_int b < of_int a * 2 powi (bitlen b)"
    using l2 u2 a b by (intro mult_le_less_imp_less) auto
  then have "(2::rat) powi (bitlen a - 1) < q * 2 powi (bitlen b)"
    using b by (simp add: q field_simps)
  then have "(2::rat) powi (bitlen a - 1) / 2 powi (bitlen b) < q"
    by (simp add: field_simps)
  moreover have "(2::rat) powi (bitlen a - 1) / 2 powi (bitlen b) = 2 powi (k - 1)"
    by (simp add: k_def power_int_diff [symmetric] algebra_simps)
  ultimately have lower: "2 powi (k - 1) < q" by simp
  have il: "ilog2 q = (if 2 powi k \<le> q then k else k - 1)"
    by (simp add: ilog2_def ab k_def Let_def)
  show ?thesis
  proof (cases "2 powi k \<le> q")
    case True
    with il upper show ?thesis by simp
  next
    case False
    with il lower show ?thesis by simp
  qed
qed

text \<open>Rounding to an integer moves by at most one half and fixes the integers.\<close>

lemma round_half_even_near:
  "\<bar>of_int (round_half_even m) - m\<bar> \<le> 1 / 2"
proof -
  have lo: "of_int \<lfloor>m\<rfloor> \<le> m" and hi: "m < of_int \<lfloor>m\<rfloor> + 1"
    by linarith+
  show ?thesis
    unfolding round_half_even_def using lo hi by (auto simp: abs_le_iff)
qed

lemma round_half_even_of_int [simp]:
  "round_half_even (of_int k) = k"
  by (simp add: round_half_even_def)

text \<open>
  The rounding of a positive rational, unfolded; an integer of at most 53 bits is its
  own rounding.
\<close>

lemma round_double_pos:
  "0 < q \<Longrightarrow>
   round_double q =
     (if overflow_threshold \<le> of_int (round_half_even (q / 2 powi (max (ilog2 q) (- 1022) - 52)))
                           * 2 powi (max (ilog2 q) (- 1022) - 52)
      then PInf
      else Fin (of_int (round_half_even (q / 2 powi (max (ilog2 q) (- 1022) - 52)))
                * 2 powi (max (ilog2 q) (- 1022) - 52)))"
  by (simp add: round_double_def Let_def)

lemma round_double_integer:
  assumes "1 \<le> n" and "n \<le> 2 ^ 53"
  shows "round_double (of_int n) = Fin (of_int n)"
proof -
  let ?q = "of_int n :: rat"
  let ?e = "ilog2 ?q"
  have pos: "0 < ?q" using assms by simp
  have le: "?q \<le> 2 ^ 53"
    using assms(2) by (metis of_int_le_iff of_int_numeral of_int_power)
  from ilog2_bounds [OF pos] have lo: "2 powi ?e \<le> ?q"
    and hi: "?q < 2 powi (?e + 1)" by auto
  have e0: "0 \<le> ?e"
  proof (rule ccontr)
    assume "\<not> 0 \<le> ?e"
    then have "?e + 1 \<le> 0" by simp
    then have "(2::rat) powi (?e + 1) \<le> 2 powi 0"
      by (intro power_int_increasing) auto
    with hi have "?q < 1" by simp
    with assms show False by simp
  qed
  have e53: "?e \<le> 53"
  proof (rule ccontr)
    assume "\<not> ?e \<le> 53"
    then have "54 \<le> ?e" by simp
    then have "(2::rat) powi 54 \<le> 2 powi ?e"
      by (intro power_int_increasing) auto
    with lo have "(2::rat) ^ 54 \<le> ?q" by simp
    with le show False by simp
  qed
  have ulp: "max ?e (- 1022) - 52 = ?e - 52" using e0 by simp
  have fin: "\<not> overflow_threshold \<le> ?q"
  proof -
    have "(2::rat) ^ 53 < 2 ^ 1024" by (intro power_strict_increasing) auto
    with le show ?thesis unfolding overflow_threshold_def by linarith
  qed
  have x: "of_int (round_half_even (?q / 2 powi (?e - 52))) * (2::rat) powi (?e - 52) = ?q"
  proof (cases "?e \<le> 52")
    case True
    then have p: "(2::rat) powi (?e - 52) = 1 / 2 ^ nat (52 - ?e)"
      by (simp add: power_int_def field_simps)
    then have m: "?q / 2 powi (?e - 52) = of_int (n * 2 ^ nat (52 - ?e))"
      by simp
    show ?thesis
      unfolding m round_half_even_of_int by (simp add: p)
  next
    case False
    with e53 have e': "?e = 53" by simp
    with lo have "(2::rat) ^ 53 \<le> ?q" by simp
    with le have q: "?q = 2 ^ 53" by simp
    have m: "?q / 2 powi (?e - 52) = of_int (2 ^ 52)"
      unfolding e' by (simp add: q)
    show ?thesis
      unfolding m round_half_even_of_int unfolding e' by (simp add: q)
  qed
  show ?thesis
    unfolding round_double_pos [OF pos] ulp x using fin by simp
qed

lemma round_half_even_ge_floor: "\<lfloor>m\<rfloor> \<le> round_half_even m"
  by (simp add: round_half_even_def)

lemma round_half_even_nonneg: "0 \<le> m \<Longrightarrow> 0 \<le> round_half_even m"
  using round_half_even_ge_floor [of m] by (simp add: order_trans [of 0 "\<lfloor>m\<rfloor>"])

lemma round_double_minus:
  "round_double (- q) =
     (case round_double q of Fin x \<Rightarrow> Fin (- x) | PInf \<Rightarrow> NInf | NInf \<Rightarrow> PInf | NaN \<Rightarrow> NaN)"
  by (cases "q = 0"; cases "0 < q") (auto simp: round_double_def Let_def)

text \<open>Below \<open>2 ^ 1023\<close> the rounded value is finite, and within half a unit in the last place.\<close>

lemma round_double_finite:
  assumes pos: "0 < q" and small: "q < 2 ^ 1023"
  shows "\<exists>x. round_double q = Fin x \<and> 0 \<le> x
           \<and> \<bar>x - q\<bar> \<le> 2 powi (max (ilog2 q) (- 1022) - 53)"
proof -
  let ?e = "max (ilog2 q) (- 1022)"
  let ?ulp = "(2::rat) powi (?e - 52)"
  let ?n = "round_half_even (q / ?ulp)"
  let ?x = "of_int ?n * ?ulp"
  have ulp_pos: "0 < ?ulp" by simp
  from ilog2_bounds [OF pos] have lo: "2 powi (ilog2 q) \<le> q" by simp
  have e_hi: "?e \<le> 1022"
  proof (rule ccontr)
    assume "\<not> ?e \<le> 1022"
    then have "1023 \<le> ilog2 q" by simp
    then have "(2::rat) powi 1023 \<le> 2 powi (ilog2 q)"
      by (intro power_int_increasing) auto
    with lo small show False by simp
  qed
  have half: "?ulp / 2 = 2 powi (?e - 53)"
  proof -
    have "(2::rat) powi (?e - 52) = 2 powi (?e - 53 + 1)" by simp
    also have "\<dots> = 2 powi (?e - 53) * 2"
      by (subst power_int_add) auto
    finally show ?thesis by simp
  qed
  have "\<bar>of_int ?n - q / ?ulp\<bar> \<le> 1 / 2" by (rule round_half_even_near)
  then have "\<bar>of_int ?n - q / ?ulp\<bar> * ?ulp \<le> 1 / 2 * ?ulp"
    using ulp_pos by (intro mult_right_mono) auto
  moreover have "\<bar>of_int ?n - q / ?ulp\<bar> * ?ulp = \<bar>?x - q\<bar>"
  proof -
    have "\<bar>of_int ?n - q / ?ulp\<bar> * ?ulp = \<bar>(of_int ?n - q / ?ulp) * ?ulp\<bar>"
      using ulp_pos by (simp add: abs_mult)
    also have "(of_int ?n - q / ?ulp) * ?ulp = ?x - q"
      using ulp_pos by (simp add: field_simps)
    finally show ?thesis .
  qed
  ultimately have near: "\<bar>?x - q\<bar> \<le> 2 powi (?e - 53)"
    using half by simp
  have "(2::rat) powi (?e - 53) \<le> 2 powi 1023"
    using e_hi by (intro power_int_increasing) auto
  with near small have "?x < 2 ^ 1023 + 2 ^ 1023" by (simp add: abs_le_iff)
  then have fin: "\<not> overflow_threshold \<le> ?x"
    unfolding overflow_threshold_def by simp
  have "0 \<le> q / ?ulp" using pos ulp_pos by simp
  then have "0 \<le> ?n" by (rule round_half_even_nonneg)
  then have nonneg: "0 \<le> ?x" using ulp_pos by simp
  show ?thesis
    unfolding round_double_pos [OF pos] using fin nonneg near by simp
qed


text \<open>From \<open>2 ^ 1024\<close> on the rounded value is infinite.\<close>

lemma round_double_overflow:
  assumes "overflow_threshold \<le> q"
  shows "round_double q = PInf"
proof -
  have big: "(2::rat) ^ 1024 \<le> q" using assms by (simp add: overflow_threshold_def)
  then have pos: "0 < q" by (rule less_le_trans [rotated]) simp
  let ?e = "max (ilog2 q) (- 1022)"
  let ?ulp = "(2::rat) powi (?e - 52)"
  from ilog2_bounds [OF pos] have lo: "2 powi (ilog2 q) \<le> q"
    and hi: "q < 2 powi (ilog2 q + 1)" by auto
  have e_big: "1024 \<le> ilog2 q"
  proof (rule ccontr)
    assume "\<not> 1024 \<le> ilog2 q"
    then have "ilog2 q + 1 \<le> 1024" by simp
    then have "(2::rat) powi (ilog2 q + 1) \<le> 2 powi 1024"
      by (intro power_int_increasing) auto
    with hi big show False by simp
  qed
  then have e: "?e = ilog2 q" by simp
  have ulp_pos: "0 < ?ulp" by simp
  have split: "(2::rat) powi (ilog2 q) = 2 ^ 52 * 2 powi (ilog2 q - 52)"
  proof -
    have "(2::rat) powi (ilog2 q) = 2 powi (52 + (ilog2 q - 52))" by simp
    also have "\<dots> = 2 powi 52 * 2 powi (ilog2 q - 52)"
      by (subst power_int_add) auto
    finally show ?thesis by simp
  qed
  define N :: int where "N = 2 ^ 52"
  have N: "(of_int N :: rat) = 2 ^ 52" by (simp add: N_def)
  have "(2::rat) ^ 52 \<le> q / ?ulp"
    using lo ulp_pos unfolding e split by (simp add: field_simps)
  then have "(of_int N :: rat) \<le> q / ?ulp" unfolding N .
  then have "N \<le> \<lfloor>q / ?ulp\<rfloor>" by (simp only: le_floor_iff)
  with round_half_even_ge_floor [of "q / ?ulp"]
  have "N \<le> round_half_even (q / ?ulp)" by (rule order_trans [rotated])
  then have "(of_int N :: rat) \<le> of_int (round_half_even (q / ?ulp))"
    by (simp only: of_int_le_iff)
  then have "of_int N * ?ulp \<le> of_int (round_half_even (q / ?ulp)) * ?ulp"
    using ulp_pos by (intro mult_right_mono) auto
  then have "(2::rat) ^ 52 * ?ulp \<le> of_int (round_half_even (q / ?ulp)) * ?ulp"
    unfolding N .
  then have "(2::rat) powi (ilog2 q) \<le> of_int (round_half_even (q / ?ulp)) * ?ulp"
    unfolding e split [symmetric] .
  moreover have "(2::rat) powi 1024 \<le> 2 powi (ilog2 q)"
    using e_big by (intro power_int_increasing) auto
  ultimately have "overflow_threshold \<le> of_int (round_half_even (q / ?ulp)) * ?ulp"
    by (simp add: overflow_threshold_def)
  then show ?thesis
    unfolding round_double_pos [OF pos] by simp
qed

subsection \<open>Evaluating the rounding\<close>




lemma round_half_even_numeral [simp]: "round_half_even (numeral k) = numeral k"
  using round_half_even_of_int [of "numeral k"] by simp

lemma round_double_numeral:
  "(numeral k :: int) \<le> 2 ^ 53 \<Longrightarrow> round_double (numeral k) = Fin (numeral k)"
  using round_double_integer [of "numeral k"] by simp





lemma below_limit: "q \<le> 2 ^ 52 \<Longrightarrow> (q::rat) < 2 ^ 1023"
proof -
  assume "q \<le> 2 ^ 52"
  moreover have "(2::rat) ^ 52 < 2 ^ 1023" by (intro power_strict_increasing) auto
  ultimately show ?thesis by (rule le_less_trans)
qed



lemma round_double_bounded:
  assumes "\<bar>q\<bar> < 2 ^ 1023"
  shows "\<exists>x. round_double q = Fin x \<and> (q \<le> 0 \<longrightarrow> x \<le> 0) \<and> (0 \<le> q \<longrightarrow> 0 \<le> x)"
proof -
  consider "q = 0" | "0 < q" | "q < 0" by linarith
  then show ?thesis
  proof cases
    case 1
    then show ?thesis by (simp add: round_double_def)
  next
    case 2
    with assms have "q < 2 ^ 1023" by simp
    from round_double_finite [OF 2 this] 2 show ?thesis by auto
  next
    case 3
    then have pos: "0 < - q" by simp
    with assms have "- q < 2 ^ 1023" by simp
    from round_double_finite [OF pos this] obtain x where
      x: "round_double (- q) = Fin x" "0 \<le> x" by blast
    from round_double_minus [of "- q"] x have "round_double q = Fin (- x)" by simp
    with x 3 show ?thesis by simp
  qed
qed

lemma round_double_infinite:
  assumes "overflow_threshold \<le> \<bar>q\<bar>"
  shows "round_double q = PInf \<or> round_double q = NInf"
proof (cases "0 \<le> q")
  case True
  with assms have "overflow_threshold \<le> q" by simp
  from round_double_overflow [OF this] show ?thesis by simp
next
  case False
  with assms have "overflow_threshold \<le> - q" by simp
  from round_double_overflow [OF this] round_double_minus [of "- q"]
  show ?thesis by simp
qed

lemma float_div_error:
  "float_div a b = Inl e \<longleftrightarrow> b = Fin 0 \<and> e = ZeroDivisionError"
  by (cases a; cases b) auto

lemma math_ceil_error: "math_ceil x \<noteq> Inl ZeroDivisionError"
  by (cases x) simp_all

subsection \<open>Sample quotients\<close>












section \<open>Properties of the stake calculator\<close>




text \<open>
  Claim C8, as amended. The calculator validates nothing and has no error of its own.
  It raises \<^verbatim>\<open>ZeroDivisionError\<close>, from the division itself, exactly when the odds are
  zero. For any other odds the exact mode returns the float quotient, and the rounded
  mode returns the ceiling of a finite quotient, raises \<^verbatim>\<open>OverflowError\<close> for an
  infinite one and \<^verbatim>\<open>ValueError\<close> for NaN, which is the quotient of a NaN total value.
  For a finite total value \<open>a\<close> and finite nonzero odds \<open>b\<close> whose quotient is below
  \<open>2 ^ 1023\<close> in absolute value, both modes return a number, and that number is not
  positive when the quotient is not positive: negative odds and non-positive total
  values are accepted. When the absolute value of the quotient reaches \<open>2 ^ 1024\<close>, the
  rounded mode raises \<^verbatim>\<open>OverflowError\<close>.
\<close>

theorem calculate_bet_amount_validates_nothing:
  "(calculate_bet_amount betting_value odds show_accurate = Inl ZeroDivisionError
      \<longleftrightarrow> odds = Fin 0)
   \<and> (odds \<noteq> Fin 0 \<longrightarrow>
        (\<exists>amount. calculate_bet_amount betting_value odds True = Inr (PyFloat amount)
           \<and> calculate_bet_amount betting_value odds False =
               (case amount of
                  Fin x \<Rightarrow> Inr (PyInt \<lceil>x\<rceil>)
                | PInf \<Rightarrow> Inl OverflowError
                | NInf \<Rightarrow> Inl OverflowError
                | NaN \<Rightarrow> Inl (ValueError ''cannot convert float NaN to integer'')))
        \<and> calculate_bet_amount NaN odds False
            = Inl (ValueError ''cannot convert float NaN to integer''))
   \<and> (b \<noteq> 0 \<and> \<bar>a / b\<bar> < 2 ^ 1023 \<longrightarrow>
        (\<exists>x. calculate_bet_amount (Fin a) (Fin b) True = Inr (PyFloat (Fin x))
           \<and> calculate_bet_amount (Fin a) (Fin b) False = Inr (PyInt \<lceil>x\<rceil>)
           \<and> (a / b \<le> 0 \<longrightarrow> x \<le> 0)))
   \<and> (b \<noteq> 0 \<and> overflow_threshold \<le> \<bar>a / b\<bar> \<longrightarrow>
        calculate_bet_amount (Fin a) (Fin b) False = Inl OverflowError)"
proof (intro conjI impI)
  show "calculate_bet_amount betting_value odds show_accurate = Inl ZeroDivisionError
      \<longleftrightarrow> odds = Fin 0"
  proof (cases "float_div betting_value odds")
    case (Inl e)
    with float_div_error [of betting_value odds e] show ?thesis
      by (simp add: calculate_bet_amount_def)
  next
    case (Inr amount)
    with float_div_error [of betting_value odds ZeroDivisionError]
    have "odds \<noteq> Fin 0" by auto
    with Inr math_ceil_error [of amount] show ?thesis
      by (auto simp: calculate_bet_amount_def split: sum.splits)
  qed
next
  assume "odds \<noteq> Fin 0"
  then obtain amount where "float_div betting_value odds = Inr amount"
    by (cases betting_value; cases odds) auto
  then show "\<exists>amount. calculate_bet_amount betting_value odds True = Inr (PyFloat amount)
           \<and> calculate_bet_amount betting_value odds False =
               (case amount of
                  Fin x \<Rightarrow> Inr (PyInt \<lceil>x\<rceil>)
                | PInf \<Rightarrow> Inl OverflowError
                | NInf \<Rightarrow> Inl OverflowError
                | NaN \<Rightarrow> Inl (ValueError ''cannot convert float NaN to integer''))"
    by (cases amount) (simp_all add: calculate_bet_amount_def)
next
  assume "odds \<noteq> Fin 0"
  then show "calculate_bet_amount NaN odds False
            = Inl (ValueError ''cannot convert float NaN to integer'')"
    by (cases odds) (simp_all add: calculate_bet_amount_def)
next
  assume h: "b \<noteq> 0 \<and> \<bar>a / b\<bar> < 2 ^ 1023"
  then have "\<bar>a / b\<bar> < 2 ^ 1023" ..
  from round_double_bounded [OF this] obtain x where
    "round_double (a / b) = Fin x" "a / b \<le> 0 \<longrightarrow> x \<le> 0" by blast
  with h show "\<exists>x. calculate_bet_amount (Fin a) (Fin b) True = Inr (PyFloat (Fin x))
           \<and> calculate_bet_amount (Fin a) (Fin b) False = Inr (PyInt \<lceil>x\<rceil>)
           \<and> (a / b \<le> 0 \<longrightarrow> x \<le> 0)"
    by (simp add: calculate_bet_amount_def)
next
  assume h: "b \<noteq> 0 \<and> overflow_threshold \<le> \<bar>a / b\<bar>"
  then have "overflow_threshold \<le> \<bar>a / b\<bar>" ..
  from round_double_infinite [OF this] h
  show "calculate_bet_amount (Fin a) (Fin b) False = Inl OverflowError"
    by (auto simp: calculate_bet_amount_def)
qed

text \<open>
  Instances: 2100 at odds 0, a NaN total value at odds 2, - 2100 at odds 2, and
  \<open>2 ^ 1022\<close> at a quarter.
\<close>

theorem calculate_bet_amount_validates_nothing_witness:
  "calculate_bet_amount (Fin 2100) (Fin 0) False = Inl ZeroDivisionError
   \<and> Fin 2 \<noteq> Fin 0
   \<and> calculate_bet_amount NaN (Fin 2) False
       = Inl (ValueError ''cannot convert float NaN to integer'')
   \<and> (2::rat) \<noteq> 0 \<and> \<bar>- 2100 / 2 :: rat\<bar> < 2 ^ 1023
   \<and> (\<exists>x. calculate_bet_amount (Fin (- 2100)) (Fin 2) True = Inr (PyFloat (Fin x))
         \<and> calculate_bet_amount (Fin (- 2100)) (Fin 2) False = Inr (PyInt \<lceil>x\<rceil>)
         \<and> x \<le> 0)
   \<and> (1 / 4 :: rat) \<noteq> 0 \<and> overflow_threshold \<le> \<bar>2 ^ 1022 / (1 / 4)\<bar>
   \<and> calculate_bet_amount (Fin (2 ^ 1022)) (Fin (1 / 4)) False = Inl OverflowError"
proof -
  have z: "calculate_bet_amount (Fin 2100) (Fin 0) False = Inl ZeroDivisionError"
    using calculate_bet_amount_validates_nothing [of "Fin 2100" "Fin 0" False] by blast
  have two: "Fin 2 \<noteq> Fin 0" "(2::rat) \<noteq> 0" by simp_all
  have "\<bar>- 2100 / 2 :: rat\<bar> \<le> 2 ^ 52" by simp
  then have small: "\<bar>- 2100 / 2 :: rat\<bar> < 2 ^ 1023" by (rule below_limit)
  have neg: "(- 2100 / 2 :: rat) \<le> 0" by simp
  from calculate_bet_amount_validates_nothing [where odds = "Fin 2" and a = "- 2100" and b = 2] two small neg
  have n: "calculate_bet_amount NaN (Fin 2) False
       = Inl (ValueError ''cannot convert float NaN to integer'')"
    and m: "\<exists>x. calculate_bet_amount (Fin (- 2100)) (Fin 2) True = Inr (PyFloat (Fin x))
         \<and> calculate_bet_amount (Fin (- 2100)) (Fin 2) False = Inr (PyInt \<lceil>x\<rceil>)
         \<and> x \<le> 0"
    by blast+
  have q: "(1 / 4 :: rat) \<noteq> 0" by simp
  have o: "overflow_threshold \<le> \<bar>2 ^ 1022 / (1 / 4)\<bar>" by (simp add: overflow_threshold_def)
  from calculate_bet_amount_validates_nothing [where a = "2 ^ 1022" and b = "1 / 4"] q o
  have v: "calculate_bet_amount (Fin (2 ^ 1022)) (Fin (1 / 4)) False = Inl OverflowError"
    by blast
  from z two small n m q o v show ?thesis by blast
qed

text \<open>
  The claim as stated fails: - 100 at odds 2 is an input with \<open>totalValue \<le> 0\<close>, and 100
  at odds - 2 one with \<open>odds \<le> 0\<close>; the calculator returns the stake - 50 for both
  instead of an error.
\<close>

theorem calculate_bet_amount_invalid_input_counterexample:
  "(- 100 :: rat) \<le> 0 \<and> is_double (- 100) \<and> is_double 2
   \<and> calculate_bet_amount (Fin (- 100)) (Fin 2) True = Inr (PyFloat (Fin (- 50)))
   \<and> calculate_bet_amount (Fin (- 100)) (Fin 2) False = Inr (PyInt (- 50))
   \<and> (- 2 :: rat) \<le> 0 \<and> is_double (- 2) \<and> is_double 100
   \<and> calculate_bet_amount (Fin 100) (Fin (- 2)) False = Inr (PyInt (- 50))"
proof -
  have m: "round_double (- numeral k) = Fin (- numeral k)" if "(numeral k :: int) \<le> 2 ^ 53" for k
    using round_double_minus [of "numeral k"] round_double_numeral [OF that] by simp
  show ?thesis
    by (simp add: calculate_bet_amount_def is_double_def m round_double_numeral)
qed

section \<open>Properties of the form\<close>

text \<open>
  The values that the widgets of the form deliver keep the calculator away from its
  exceptions: both stakes are finite and not negative.
\<close>

lemma small_below_limit: "q \<le> 10000 \<Longrightarrow> (q::rat) < 2 ^ 1023"
proof -
  assume "q \<le> 10000"
  moreover have "(10000::rat) < 2 ^ 14" by simp
  moreover have "(2::rat) ^ 14 \<le> 2 ^ 1023" by (intro power_increasing) auto
  ultimately show ?thesis by linarith
qed

lemma stake_of_widget_values:
  assumes "100 \<le> betting_value" "betting_value \<le> 10000" "1 \<le> odds" "odds \<le> 100"
  shows "\<exists>n a. calculate_bet_amount (Fin betting_value) (Fin odds) show_accurate = Inr n
           \<and> amount_value n = Some a \<and> 0 \<le> a"
proof -
  let ?q = "betting_value / odds"
  have pos: "0 < ?q" using assms by simp
  have "?q \<le> betting_value" using assms by (simp add: field_simps mult_le_cancel_left1)
  with assms have "?q \<le> 10000" by simp
  then have "?q < 2 ^ 1023" by (rule small_below_limit)
  from round_double_finite [OF pos this] obtain x where
    x: "round_double ?q = Fin x" "0 \<le> x" by blast
  have nz: "odds \<noteq> 0" using assms by auto
  show ?thesis
  proof (cases show_accurate)
    case True
    with x nz show ?thesis
      by (simp add: calculate_bet_amount_def amount_value_def)
  next
    case False
    from x(2) have "0 \<le> \<lceil>x\<rceil>" by (simp add: order_trans [of 0 x])
    with False x nz show ?thesis
      by (simp add: calculate_bet_amount_def amount_value_def)
  qed
qed

lemma number_input_range:
  "number_input lo hi v = Inr x \<Longrightarrow> lo \<le> x \<and> x \<le> hi"
  by (auto simp: number_input_def split: pyfloat.splits if_splits)

lemma number_input_error:
  "number_input lo hi v = Inl e \<Longrightarrow> e = StreamlitAPIException"
  by (auto simp: number_input_def split: pyfloat.splits if_splits)

text \<open>The only exception raised while the form is drawn is that of a widget.\<close>

lemma draw_form_error:
  assumes "draw_form f = Inl e"
  shows "e = StreamlitAPIException"
proof (cases "number_input 100 10000 (f_betting_value f)")
  case (Inl e1)
  with assms number_input_error [OF Inl] show ?thesis by (simp add: draw_form_def)
next
  case bv: (Inr betting_value)
  note r0 = number_input_range [OF bv]
  show ?thesis
  proof (cases "number_input 1 100 (f_odds1 f)")
    case (Inl e1)
    with assms bv number_input_error [OF Inl] show ?thesis by (simp add: draw_form_def)
  next
    case o1: (Inr odds1)
    note r1 = number_input_range [OF o1]
    from stake_of_widget_values [of betting_value odds1 "f_show_accurate f"] r0 r1
    obtain n1 a1 where s1:
      "calculate_bet_amount (Fin betting_value) (Fin odds1) (f_show_accurate f) = Inr n1"
      "amount_value n1 = Some a1" by auto
    show ?thesis
    proof (cases "number_input 1 100 (f_odds2 f)")
      case (Inl e1)
      with assms bv o1 s1 number_input_error [OF Inl] show ?thesis
        by (simp add: draw_form_def)
    next
      case o2: (Inr odds2)
      note r2 = number_input_range [OF o2]
      from stake_of_widget_values [of betting_value odds2 "f_show_accurate f"] r0 r2
      obtain n2 a2 where s2:
        "calculate_bet_amount (Fin betting_value) (Fin odds2) (f_show_accurate f) = Inr n2"
        "amount_value n2 = Some a2" by auto
      from assms bv o1 s1 o2 s2 show ?thesis by (simp add: draw_form_def)
    qed
  qed
qed

lemma draw_form_accounts:
  "draw_form f = Inr (drawn, a1, a2) \<Longrightarrow>
     f_team1_accounts drawn = f_team1_accounts f \<and> f_team2_accounts drawn = f_team2_accounts f"
  by (auto simp: draw_form_def split: sum.splits option.splits)

lemma draw_sample_form: "draw_form sample_form = Inr (sample_form, 1050, 700)"
  by (simp add: draw_form_def sample_form_def number_input_def calculate_bet_amount_def
        amount_value_def round_double_numeral)

lemma draw_mirrored_form: "draw_form mirrored_form = Inr (mirrored_form, 1050, 700)"
  by (simp add: draw_form_def mirrored_form_def sample_form_def number_input_def
        calculate_bet_amount_def amount_value_def round_double_numeral)

lemma draw_lopsided_form: "draw_form lopsided_form = Inr (lopsided_form, 1050, 700)"
  by (simp add: draw_form_def lopsided_form_def sample_form_def number_input_def
        calculate_bet_amount_def amount_value_def round_double_numeral)




lemma betting_sample_form:
  "betting_form io now sample_form w = submit_form io now sample_form 1050 700 w"
  by (simp add: betting_form_def draw_sample_form)

section \<open>Properties of the store and of the handlers\<close>

subsection \<open>Auxiliary facts\<close>

lemma first_index_SomeD:
  "first_index P xs = Some i \<Longrightarrow> i < length xs \<and> P (xs ! i)"
proof (induction xs arbitrary: i)
  case Nil
  then show ?case by simp
next
  case (Cons x xs)
  then show ?case by (cases "P x") (auto split: if_splits)
qed

lemma save_account_row:
  "\<exists>s' row. save_account True now d s = Inr s'
     \<and> filter (\<lambda>r. acc_id r = ad_account_id d) (accounts s') = [row]
     \<and> acc_is_active row \<and> acc_created_at row = now \<and> acc_updated_at row = now
     \<and> acc_balance row = ad_balance d
     \<and> filter (\<lambda>r. acc_id r \<noteq> ad_account_id d) (accounts s')
         = filter (\<lambda>r. acc_id r \<noteq> ad_account_id d) (accounts s)"
  by (simp add: save_account_def Let_def filter_empty_conv)

lemma list_ex_complete:
  "list_ex (\<lambda>b. b_id b = bid)
     (map (\<lambda>b. if b_id b = bid then b\<lparr>b_status := ''completed'', b_updated_at := now\<rparr> else b) bs)
   = list_ex (\<lambda>b. b_id b = bid) bs"
  by (induction bs) auto

text \<open>
  One call of \<^verbatim>\<open>save_result\<close> on a bet that exists, whatever its status: it succeeds,
  appends one row to \<^verbatim>\<open>results\<close>, leaves the bet completed and every other bet alone,
  and touches the accounts only for a win.
\<close>

lemma save_result_step:
  assumes present: "list_ex (\<lambda>b. b_id b = rd_bet_id rd) (bets s)"
      and wins: "rd_result_type rd = ''win'' \<longrightarrow> rd_winning_accounts rd \<noteq> None"
  shows "\<exists>s' r. save_result True now rd s = Inr s'
           \<and> results s' = results s @ [r]
           \<and> r_bet_id r = rd_bet_id rd
           \<and> r_result_type r = rd_result_type rd
           \<and> r_winning_team r = rd_winning_team rd
           \<and> r_profit_amount r = rd_profit_amount rd
           \<and> list_ex (\<lambda>b. b_id b = rd_bet_id rd) (bets s')
           \<and> (\<forall>b \<in> set (bets s'). b_id b = rd_bet_id rd \<longrightarrow> b_status b = ''completed'')
           \<and> filter (\<lambda>b. b_id b \<noteq> rd_bet_id rd) (bets s')
               = filter (\<lambda>b. b_id b \<noteq> rd_bet_id rd) (bets s)
           \<and> bet_accounts s' = bet_accounts s \<and> matches s' = matches s
           \<and> (rd_result_type rd \<noteq> ''win'' \<longrightarrow> accounts s' = accounts s)
           \<and> (rd_result_type rd = ''win'' \<longrightarrow>
                 accounts s' = credit_accounts now (the (rd_winning_accounts rd)) (accounts s))"
proof -
  have others: "filter (\<lambda>b. b_id b \<noteq> bid)
     (map (\<lambda>b. if b_id b = bid then b\<lparr>b_status := ''completed'', b_updated_at := now\<rparr> else b) bs)
      = filter (\<lambda>b. b_id b \<noteq> bid) bs" for bid bs
    by (induction bs) auto
  show ?thesis
  proof (cases "rd_result_type rd = ''win''")
    case True
    with wins obtain ws where "rd_winning_accounts rd = Some ws" by auto
    with True present show ?thesis
      by (auto simp add: save_result_def Let_def list_ex_complete others)
  next
    case False
    with present show ?thesis
      by (auto simp add: save_result_def Let_def list_ex_complete others)
  qed
qed

subsection \<open>Saving an account, crediting a win\<close>

text \<open>
  The credit that \<^verbatim>\<open>save_result\<close> makes for a win is an \<^verbatim>\<open>UPDATE\<close> of the balance and
  of \<^verbatim>\<open>updated_at\<close>: the rows keep their ids, their \<^verbatim>\<open>is_active\<close> and their
  \<^verbatim>\<open>created_at\<close>.
\<close>

lemma credit_accounts_keeps_columns:
  "map acc_id (credit_accounts now ws rows) = map acc_id rows
   \<and> map acc_is_active (credit_accounts now ws rows) = map acc_is_active rows
   \<and> map acc_created_at (credit_accounts now ws rows) = map acc_created_at rows"
proof (induction ws arbitrary: rows)
  case Nil
  then show ?case by simp
next
  case (Cons w ws)
  obtain aid profit where w: "w = (aid, profit)" by (cases w)
  let ?rows = "map (\<lambda>r. if acc_id r = aid
                 then r\<lparr>acc_balance := acc_balance r + profit, acc_updated_at := now\<rparr>
                 else r) rows"
  have "map acc_id ?rows = map acc_id rows"
    "map acc_is_active ?rows = map acc_is_active rows"
    "map acc_created_at ?rows = map acc_created_at rows"
    by (induction rows) auto
  with Cons.IH [of ?rows] show ?case by (simp add: w)
qed

lemma save_result_keeps_columns:
  assumes "save_result ok now rd s = Inr s'"
  shows "map acc_id (accounts s') = map acc_id (accounts s)
       \<and> map acc_is_active (accounts s') = map acc_is_active (accounts s)
       \<and> map acc_created_at (accounts s') = map acc_created_at (accounts s)"
  using assms credit_accounts_keeps_columns
  by (auto simp: save_result_def Let_def split: if_splits option.splits)

text \<open>
  Claim C10, as amended. \<^verbatim>\<open>save_account\<close> replaces the whole row of the account:
  after it, the account has exactly one row, and that row is active and was created now,
  whatever the row held before. Every debit and credit made by
  \<^verbatim>\<open>update_account_balance\<close> goes through it, so a successful balance update resets
  the two columns in the same way. Not every credit does: the credit of a win inside
  \<^verbatim>\<open>save_result\<close> is an \<^verbatim>\<open>UPDATE\<close>, and a successful \<^verbatim>\<open>save_result\<close> leaves the
  \<^verbatim>\<open>is_active\<close> and the \<^verbatim>\<open>created_at\<close> of every account as they were.
\<close>

theorem save_account_resets_columns_save_result_keeps_them:
  "(\<exists>s' row. save_account True now d s = Inr s'
       \<and> filter (\<lambda>r. acc_id r = ad_account_id d) (accounts s') = [row]
       \<and> acc_is_active row \<and> acc_created_at row = now)
   \<and> (update_account_balance ok now account_id amount operation w = (None, w') \<longrightarrow>
        (\<exists>row. filter (\<lambda>r. acc_id r = account_id) (accounts (db w')) = [row]
           \<and> acc_is_active row \<and> acc_created_at row = now))
   \<and> (save_result ok now result_data s = Inr s'' \<longrightarrow>
        map acc_id (accounts s'') = map acc_id (accounts s)
        \<and> map acc_is_active (accounts s'') = map acc_is_active (accounts s)
        \<and> map acc_created_at (accounts s'') = map acc_created_at (accounts s))"
proof (intro conjI impI)
  show "\<exists>s' row. save_account True now d s = Inr s'
       \<and> filter (\<lambda>r. acc_id r = ad_account_id d) (accounts s') = [row]
       \<and> acc_is_active row \<and> acc_created_at row = now"
    using save_account_row [of now d s] by blast
next
  assume run: "update_account_balance ok now account_id amount operation w = (None, w')"
  then obtain idx where
    idx: "first_index (\<lambda>r. acc_id r = account_id) (account_data w) = Some idx"
    by (auto simp: update_account_balance_def split: option.splits)
  then have same: "acc_id (account_data w ! idx) = account_id"
    and len: "idx < length (account_data w)"
    using first_index_SomeD [OF idx] by auto
  from run idx obtain b where wb: "write_back ok now idx b w = (None, w')"
    by (auto simp: update_account_balance_def split: if_splits)
  then show "\<exists>row. filter (\<lambda>r. acc_id r = account_id) (accounts (db w')) = [row]
           \<and> acc_is_active row \<and> acc_created_at row = now"
    using same len
    by (auto simp: write_back_def Let_def save_account_def filter_empty_conv
             split: sum.splits if_splits)
next
  assume run: "save_result ok now result_data s = Inr s''"
  from save_result_keeps_columns [OF run]
  show "map acc_id (accounts s'') = map acc_id (accounts s)"
    and "map acc_is_active (accounts s'') = map acc_is_active (accounts s)"
    and "map acc_created_at (accounts s'') = map acc_created_at (accounts s)"
    by simp_all
qed

text \<open>
  Account 3 of the sample ledger is inactive and was created at time 1; saved at time 7
  it is active and created at 7. Account 1 was created at time 1; debited at time 7 it is
  created at 7. The win of bet 1, saved at time 9, keeps both columns of every account.
\<close>

theorem save_account_resets_columns_save_result_keeps_them_witness:
  "map (\<lambda>r. (acc_is_active r, acc_created_at r)) (account_rows (accounts opening_ledger) 3)
     = [(False, 1)]
   \<and> (\<exists>s' row. save_account True 7
          \<lparr>ad_account_id = 3, ad_name = None, ad_balance = 500, ad_remarks = None\<rparr>
          opening_ledger = Inr s'
        \<and> filter (\<lambda>r. acc_id r = 3) (accounts s') = [row]
        \<and> acc_is_active row \<and> acc_created_at row = 7)
   \<and> fst (update_account_balance True 7 1 1050 ''subtract'' opening_world) = None
   \<and> (\<exists>row. filter (\<lambda>r. acc_id r = 1)
          (accounts (db (snd (update_account_balance True 7 1 1050 ''subtract'' opening_world))))
          = [row]
        \<and> acc_is_active row \<and> acc_created_at row = 7)
   \<and> \<not> isl (save_result True 9 win_of_bet_1 ledger_with_bet)
   \<and> map acc_is_active (accounts (projr (save_result True 9 win_of_bet_1 ledger_with_bet)))
       = map acc_is_active (accounts ledger_with_bet)
   \<and> map acc_created_at (accounts (projr (save_result True 9 win_of_bet_1 ledger_with_bet)))
       = map acc_created_at (accounts ledger_with_bet)"
proof -
  have before: "map (\<lambda>r. (acc_is_active r, acc_created_at r))
       (account_rows (accounts opening_ledger) 3) = [(False, 1)]"
    by code_simp
  have run: "fst (update_account_balance True 7 1 1050 ''subtract'' opening_world) = None"
    by code_simp
  then have upd: "update_account_balance True 7 1 1050 ''subtract'' opening_world
      = (None, snd (update_account_balance True 7 1 1050 ''subtract'' opening_world))"
    by (simp add: prod_eq_iff)
  have settled: "\<not> isl (save_result True 9 win_of_bet_1 ledger_with_bet)"
    by code_simp
  then have res: "save_result True 9 win_of_bet_1 ledger_with_bet
      = Inr (projr (save_result True 9 win_of_bet_1 ledger_with_bet))"
    by (cases "save_result True 9 win_of_bet_1 ledger_with_bet") simp_all
  from save_account_resets_columns_save_result_keeps_them
         [where now = 7
            and d = "\<lparr>ad_account_id = 3, ad_name = None, ad_balance = 500, ad_remarks = None\<rparr>"
            and s = opening_ledger and ok = True and account_id = 1 and amount = 1050
            and operation = "''subtract''" and w = opening_world
            and w' = "snd (update_account_balance True 7 1 1050 ''subtract'' opening_world)"]
    upd
  have one: "\<exists>s' row. save_account True 7
          \<lparr>ad_account_id = 3, ad_name = None, ad_balance = 500, ad_remarks = None\<rparr>
          opening_ledger = Inr s'
        \<and> filter (\<lambda>r. acc_id r = 3) (accounts s') = [row]
        \<and> acc_is_active row \<and> acc_created_at row = 7"
    and two: "\<exists>row. filter (\<lambda>r. acc_id r = 1)
          (accounts (db (snd (update_account_balance True 7 1 1050 ''subtract'' opening_world))))
          = [row]
        \<and> acc_is_active row \<and> acc_created_at row = 7"
    by simp_all
  from save_account_resets_columns_save_result_keeps_them
         [where ok = True and now = 9 and result_data = win_of_bet_1 and s = ledger_with_bet
            and s'' = "projr (save_result True 9 win_of_bet_1 ledger_with_bet)"]
    res
  have three:
    "map acc_is_active (accounts (projr (save_result True 9 win_of_bet_1 ledger_with_bet)))
       = map acc_is_active (accounts ledger_with_bet)"
    "map acc_created_at (accounts (projr (save_result True 9 win_of_bet_1 ledger_with_bet)))
       = map acc_created_at (accounts ledger_with_bet)"
    by simp_all
  from before one run two settled three show ?thesis by blast
qed

text \<open>
  The claim as stated fails for the credit made by \<^verbatim>\<open>save_result\<close>: a win of bet 1
  that names account 3 with a profit of 100 takes its balance from 500 to 600, and the
  account is still inactive and still created at time 1.
\<close>

theorem save_result_credit_keeps_columns_counterexample:
  "map (\<lambda>r. (acc_balance r, acc_is_active r, acc_created_at r))
       (account_rows (accounts ledger_with_bet) 3) = [(500, False, 1)]
   \<and> \<not> isl (save_result True 9 win_crediting_account_3 ledger_with_bet)
   \<and> map (\<lambda>r. (acc_balance r, acc_is_active r, acc_created_at r))
       (account_rows
          (accounts (projr (save_result True 9 win_crediting_account_3 ledger_with_bet))) 3)
       = [(600, False, 1)]"
  by code_simp

subsection \<open>Settling a loss\<close>

text \<open>
  Claim C7. ``Apply Loss'' on an active bet, with the store working: exactly one row is
  added to \<^verbatim>\<open>results\<close>, for this bet, of type \<^verbatim>\<open>loss\<close>, with no profit and the
  sentinel 0 as winning team; the bet is completed; the accounts in the store and the
  session's table of accounts are what they were.
\<close>

theorem apply_loss_records_loss_only:
  assumes active: "list_ex (\<lambda>b. b_id b = ab_bet_id bet \<and> b_status b = ''active'') (bets (db w))"
      and io: "io 0" "io 1"
  shows "\<exists>w' r. apply_loss io now bet w = (Success, w')
           \<and> results (db w') = results (db w) @ [r]
           \<and> r_bet_id r = ab_bet_id bet \<and> r_result_type r = ''loss''
           \<and> r_profit_amount r = None \<and> r_winning_team r = Some 0
           \<and> list_ex (\<lambda>b. b_id b = ab_bet_id bet) (bets (db w'))
           \<and> (\<forall>b \<in> set (bets (db w')). b_id b = ab_bet_id bet \<longrightarrow> b_status b = ''completed'')
           \<and> accounts (db w') = accounts (db w)
           \<and> account_data w' = account_data w"
proof -
  let ?rd = "\<lparr>rd_bet_id = ab_bet_id bet, rd_winning_team = Some 0,
              rd_result_type = ''loss'', rd_profit_amount = None,
              rd_loss_amount = None, rd_cashout_details = None,
              rd_winning_accounts = None\<rparr>"
  from active have present: "list_ex (\<lambda>b. b_id b = rd_bet_id ?rd) (bets (db w))"
    by (auto simp: list_ex_iff)
  have "rd_result_type ?rd = ''win'' \<longrightarrow> rd_winning_accounts ?rd \<noteq> None" by simp
  from save_result_step [OF present this, of now]
  obtain s' r where s': "save_result True now ?rd (db w) = Inr s'"
    and r: "results s' = results (db w) @ [r]" "r_bet_id r = ab_bet_id bet"
       "r_result_type r = ''loss''" "r_winning_team r = Some 0" "r_profit_amount r = None"
    and b: "list_ex (\<lambda>b. b_id b = ab_bet_id bet) (bets s')"
       "\<forall>b \<in> set (bets s'). b_id b = ab_bet_id bet \<longrightarrow> b_status b = ''completed''"
    and a: "accounts s' = accounts (db w)"
    by auto
  have "apply_loss io now bet w
      = (Success, w\<lparr>db := s', active_bets := projr (get_active_bets True s')\<rparr>)"
    using s' io by (simp add: apply_loss_def get_active_bets_def)
  with r b a show ?thesis by simp
qed

theorem apply_loss_records_loss_only_witness:
  "list_ex (\<lambda>b. b_id b = ab_bet_id sample_active_bet \<and> b_status b = ''active'')
     (bets (db world_with_bet))
   \<and> (\<exists>w' r. apply_loss working 9 sample_active_bet world_with_bet = (Success, w')
           \<and> results (db w') = results (db world_with_bet) @ [r]
           \<and> r_bet_id r = 1 \<and> r_result_type r = ''loss''
           \<and> r_profit_amount r = None \<and> r_winning_team r = Some 0
           \<and> list_ex (\<lambda>b. b_id b = 1) (bets (db w'))
           \<and> (\<forall>b \<in> set (bets (db w')). b_id b = 1 \<longrightarrow> b_status b = ''completed'')
           \<and> accounts (db w') = accounts (db world_with_bet)
           \<and> account_data w' = account_data world_with_bet)"
proof -
  have active: "list_ex (\<lambda>b. b_id b = ab_bet_id sample_active_bet \<and> b_status b = ''active'')
     (bets (db world_with_bet))"
    by code_simp
  have id: "ab_bet_id sample_active_bet = 1" by (simp add: sample_active_bet_def)
  from apply_loss_records_loss_only [OF active, of working 9] active id
  show ?thesis by (simp add: working_def)
qed

subsection \<open>Placing a bet: the balance check\<close>









subsection \<open>Placing a bet: an account on both teams\<close>

text \<open>
  Inserting the allocations of a team leaves a row for each of its accounts and keeps the
  rows that were there; an account that already has a row for this bet makes the insert
  fail. So \<^verbatim>\<open>create_bet\<close> fails whenever the two teams share an account.
\<close>

lemma insert_bet_accounts_grows:
  "insert_bet_accounts now bid team amount accs s = Inr s' \<Longrightarrow>
     (\<forall>a \<in> set accs. list_ex (\<lambda>r. ba_bet_id r = bid \<and> ba_account_id r = a) (bet_accounts s'))
     \<and> set (bet_accounts s) \<subseteq> set (bet_accounts s')"
proof (induction accs arbitrary: s)
  case Nil
  then show ?case by simp
next
  case (Cons a accs)
  let ?s1 = "s\<lparr>bet_accounts := bet_accounts s @
                    [\<lparr>ba_bet_id = bid, ba_account_id = a, ba_team_number = team,
                      ba_bet_amount = amount, ba_status = ''active'',
                      ba_created_at = now\<rparr>]\<rparr>"
  from Cons.prems have rest: "insert_bet_accounts now bid team amount accs ?s1 = Inr s'"
    by (simp split: if_splits)
  let ?row = "\<lparr>ba_bet_id = bid, ba_account_id = a, ba_team_number = team,
                ba_bet_amount = amount, ba_status = ''active'', ba_created_at = now\<rparr>"
  from Cons.IH [OF rest]
  have tail: "\<forall>a \<in> set accs.
                list_ex (\<lambda>r. ba_bet_id r = bid \<and> ba_account_id r = a) (bet_accounts s')"
    and sub: "set (bet_accounts ?s1) \<subseteq> set (bet_accounts s')"
    by blast+
  from sub have "?row \<in> set (bet_accounts s')" by auto
  moreover have "ba_bet_id ?row = bid \<and> ba_account_id ?row = a" by simp
  ultimately have head: "list_ex (\<lambda>r. ba_bet_id r = bid \<and> ba_account_id r = a) (bet_accounts s')"
    unfolding list_ex_iff by blast
  from sub have "set (bet_accounts s) \<subseteq> set (bet_accounts s')" by auto
  with head tail show ?case by simp
qed

lemma insert_bet_accounts_duplicate:
  "a \<in> set accs \<Longrightarrow>
   list_ex (\<lambda>r. ba_bet_id r = bid \<and> ba_account_id r = a) (bet_accounts s) \<Longrightarrow>
   isl (insert_bet_accounts now bid team amount accs s)"
proof (induction accs arbitrary: s)
  case Nil
  then show ?case by simp
next
  case (Cons x accs)
  show ?case
  proof (cases "x = a")
    case True
    with Cons.prems show ?thesis by simp
  next
    case False
    with Cons.prems have "a \<in> set accs" by simp
    then show ?thesis
      using Cons.IH Cons.prems(2) by (auto simp: list_ex_iff)
  qed
qed

lemma create_bet_shared_account:
  assumes "a \<in> set (bd_team1_accounts bd)" and "a \<in> set (bd_team2_accounts bd)"
  shows "isl (create_bet ok now bd s)"
proof -
  have step: "isl (case insert_bet_accounts now bid 1 x (bd_team1_accounts bd) s2 of
                  Inl e \<Rightarrow> Inl e
                | Inr s3 \<Rightarrow>
                    (case insert_bet_accounts now bid 2 y (bd_team2_accounts bd) s3 of
                       Inl e \<Rightarrow> Inl e
                     | Inr s4 \<Rightarrow> Inr (bid, s4)))" for bid x y s2
  proof (cases "insert_bet_accounts now bid 1 x (bd_team1_accounts bd) s2")
    case (Inl e)
    then show ?thesis by simp
  next
    case (Inr s3)
    from insert_bet_accounts_grows [OF Inr] assms(1)
    have "list_ex (\<lambda>r. ba_bet_id r = bid \<and> ba_account_id r = a) (bet_accounts s3)" by blast
    from insert_bet_accounts_duplicate [OF assms(2) this, of now 2 y]
    show ?thesis using Inr by (auto split: sum.splits)
  qed
  show ?thesis
    unfolding create_bet_def Let_def
    by (simp add: step split: prod.splits)
qed

text \<open>
  Claim C6, as amended. A request with an account on both teams is always rejected and
  nothing is written: the store and the session are returned as they were. The form has
  no check for it; the rejection is that of the first check that fails (unequal numbers
  of accounts, insufficient balance or an unknown account), and otherwise the exception
  of \<^verbatim>\<open>db.create_bet\<close>, whose transaction is rolled back.
\<close>

theorem betting_form_rejects_shared_account:
  assumes shared: "set (f_team1_accounts f) \<inter> set (f_team2_accounts f) \<noteq> {}"
  shows "snd (betting_form io now f w) = w
       \<and> ((\<exists>e. fst (betting_form io now f w) = ScriptError e)
          \<or> (\<exists>n m. fst (betting_form io now f w) = UnequalAccounts n m)
          \<or> (\<exists>l. fst (betting_form io now f w) = InsufficientBalance l)
          \<or> (\<exists>e. fst (betting_form io now f w) = Failed e))"
proof -
  from shared obtain a where a: "a \<in> set (f_team1_accounts f)" "a \<in> set (f_team2_accounts f)"
    by auto
  have place: "\<exists>e. place_bet io now g x y w = (Failed e, w)"
    if b: "a \<in> set (f_team1_accounts g)" "a \<in> set (f_team2_accounts g)" for g x y
  proof -
    let ?bd = "\<lparr>bd_match_id = None, bd_team1 = f_team1 g, bd_team2 = f_team2 g,
              bd_match_date = f_match_date g, bd_match_time = f_match_time g,
              bd_team1_odds = f_odds1 g, bd_team2_odds = f_odds2 g,
              bd_betting_value = f_betting_value g,
              bd_bet_amount1 = x, bd_bet_amount2 = y,
              bd_team1_accounts = f_team1_accounts g,
              bd_team2_accounts = f_team2_accounts g\<rparr>"
    have "isl (create_bet (io 0) now ?bd (db w))"
      using create_bet_shared_account [of a ?bd] b by simp
    then obtain e where "create_bet (io 0) now ?bd (db w) = Inl e"
      by (cases "create_bet (io 0) now ?bd (db w)") auto
    then show ?thesis by (simp add: place_bet_def)
  qed
  have shape: "(\<exists>e. betting_form io now f w = (ScriptError e, w))
          \<or> (\<exists>n m. betting_form io now f w = (UnequalAccounts n m, w))
          \<or> (\<exists>l. betting_form io now f w = (InsufficientBalance l, w))
          \<or> (\<exists>e. betting_form io now f w = (Failed e, w))"
  proof (cases "draw_form f")
    case (Inl e)
    then show ?thesis by (simp add: betting_form_def)
  next
    case (Inr r)
    then obtain g x y where drawn: "draw_form f = Inr (g, x, y)" by (cases r) auto
    from draw_form_accounts [OF drawn] a
    have b: "a \<in> set (f_team1_accounts g)" "a \<in> set (f_team2_accounts g)" by simp_all
    then have ne: "f_team1_accounts g \<noteq> []" "f_team2_accounts g \<noteq> []" by auto
    from place [OF b, of x y] obtain e where "place_bet io now g x y w = (Failed e, w)" ..
    with drawn ne show ?thesis
      by (simp add: betting_form_def submit_form_def split: sum.splits)
  qed
  then show ?thesis by auto
qed

text \<open>
  With account 1 alone on both teams the request reaches the store and is refused by the
  primary key of \<^verbatim>\<open>bet_accounts\<close>.
\<close>

theorem betting_form_rejects_shared_account_witness:
  "set (f_team1_accounts mirrored_form) \<inter> set (f_team2_accounts mirrored_form) = {1}
   \<and> snd (betting_form working 7 mirrored_form opening_world) = opening_world
   \<and> fst (betting_form working 7 mirrored_form opening_world)
       = Failed (IntegrityError
           ''UNIQUE constraint failed: bet_accounts.bet_id, bet_accounts.account_id'')"
proof -
  have shared: "set (f_team1_accounts mirrored_form) \<inter> set (f_team2_accounts mirrored_form) = {1}"
    by (simp add: mirrored_form_def sample_form_def)
  then have "set (f_team1_accounts mirrored_form) \<inter> set (f_team2_accounts mirrored_form) \<noteq> {}"
    by simp
  from betting_form_rejects_shared_account [OF this, of working 7 opening_world]
  have same: "snd (betting_form working 7 mirrored_form opening_world) = opening_world"
    by blast
  have "fst (submit_form working 7 mirrored_form 1050 700 opening_world)
       = Failed (IntegrityError
           ''UNIQUE constraint failed: bet_accounts.bet_id, bet_accounts.account_id'')"
    by code_simp
  then have "fst (betting_form working 7 mirrored_form opening_world)
       = Failed (IntegrityError
           ''UNIQUE constraint failed: bet_accounts.bet_id, bet_accounts.account_id'')"
    by (simp add: betting_form_def draw_mirrored_form)
  with shared same show ?thesis by simp
qed

text \<open>
  The claim as stated fails: with accounts 1 and 2 on team 1 and account 1 on team 2 the
  request is rejected as unequal selections, not as an account on both sides.
\<close>

theorem betting_form_shared_account_counterexample:
  "set (f_team1_accounts lopsided_form) \<inter> set (f_team2_accounts lopsided_form) = {1}
   \<and> betting_form working 7 lopsided_form opening_world
       = (UnequalAccounts 2 1, opening_world)"
proof -
  have "submit_form working 7 lopsided_form 1050 700 opening_world
      = (UnequalAccounts 2 1, opening_world)"
    by (simp add: submit_form_def lopsided_form_def sample_form_def)
  moreover have "betting_form working 7 lopsided_form opening_world
      = submit_form working 7 lopsided_form 1050 700 opening_world"
    by (simp add: betting_form_def draw_lopsided_form)
  moreover have "set (f_team1_accounts lopsided_form) \<inter> set (f_team2_accounts lopsided_form)
      = {1}"
    by (simp add: lopsided_form_def sample_form_def)
  ultimately show ?thesis by simp
qed

subsection \<open>Settling twice\<close>

text \<open>
  Claim C3, on the code. Bet 1 of the sample ledger is active, with account 1 on team 1
  (stake 1050, odds 2) and both balances at 5000. ``Apply Loss'' is clicked and the
  re-reading of the active bets fails: the handler reports the error, the store holds
  the bet as completed with its one result row of type \<^verbatim>\<open>loss\<close>, and the session still
  lists the bet. ``Apply Win'' for team 1 on that listed bet is not refused: it succeeds,
  the bet stays completed, there are two result rows, \<^verbatim>\<open>loss\<close> and \<^verbatim>\<open>win\<close>, and
  account 1 stands at 9200. In the store itself, \<^verbatim>\<open>save_result\<close> for a bet that is
  already completed raises nothing: the second call appends the second row and credits
  the winner, 7100 for account 1.
\<close>

theorem settled_bet_is_settled_again:
  "fst (apply_loss (failing_at 1) 8 sample_active_bet world_with_bet) = Failed OperationalError
   \<and> map b_status (bets (db (snd (apply_loss (failing_at 1) 8 sample_active_bet world_with_bet))))
       = [''completed'']
   \<and> map r_result_type
        (results (db (snd (apply_loss (failing_at 1) 8 sample_active_bet world_with_bet))))
       = [''loss'']
   \<and> active_bets (snd (apply_loss (failing_at 1) 8 sample_active_bet world_with_bet))
       = [sample_active_bet]
   \<and> cached_balance
        (accounts (db (snd (apply_loss (failing_at 1) 8 sample_active_bet world_with_bet)))) 1
       = Some 5000
   \<and> fst (apply_win working 9 sample_active_bet ''Chennai Super Kings''
             (snd (apply_loss (failing_at 1) 8 sample_active_bet world_with_bet)))
       = Success
   \<and> map b_status
        (bets (db (snd (apply_win working 9 sample_active_bet ''Chennai Super Kings''
                          (snd (apply_loss (failing_at 1) 8 sample_active_bet world_with_bet))))))
       = [''completed'']
   \<and> map r_result_type
        (results (db (snd (apply_win working 9 sample_active_bet ''Chennai Super Kings''
                             (snd (apply_loss (failing_at 1) 8 sample_active_bet
                                     world_with_bet))))))
       = [''loss'', ''win'']
   \<and> cached_balance
        (accounts (db (snd (apply_win working 9 sample_active_bet ''Chennai Super Kings''
                              (snd (apply_loss (failing_at 1) 8 sample_active_bet
                                      world_with_bet)))))) 1
       = Some 9200
   \<and> \<not> isl (save_result True 8 loss_of_bet_1 ledger_with_bet)
   \<and> \<not> isl (save_result True 9 win_of_bet_1
              (projr (save_result True 8 loss_of_bet_1 ledger_with_bet)))
   \<and> map r_result_type
        (results (projr (save_result True 9 win_of_bet_1
                   (projr (save_result True 8 loss_of_bet_1 ledger_with_bet)))))
       = [''loss'', ''win'']
   \<and> cached_balance
        (accounts (projr (save_result True 9 win_of_bet_1
                   (projr (save_result True 8 loss_of_bet_1 ledger_with_bet))))) 1
       = Some 7100"
  by code_simp

subsection \<open>Failures of the store\<close>

text \<open>
  Claim C9, as amended. When SQLite fails, every method of the store re-raises the
  exception to its caller, except two: \<^verbatim>\<open>get_settings\<close> returns the default settings
  (250 and 2100) and \<^verbatim>\<open>get_bet_history\<close> returns an empty table.
\<close>

theorem storage_failure_surfaces_except_in_settings_and_history:
  "get_accounts False s = Inl OperationalError
   \<and> save_account False now account s = Inl OperationalError
   \<and> create_match False now match_data s = Inl OperationalError
   \<and> create_bet False now bet_data s = Inl OperationalError
   \<and> get_active_bets False s = Inl OperationalError
   \<and> get_bet_details False bet_id s = Inl OperationalError
   \<and> save_result False now result_data s = Inl OperationalError
   \<and> save_settings False now min_transfer default_betting_value s = Inl OperationalError
   \<and> get_settings False s
       = Inr \<lparr>sd_setting_id = None, sd_min_transfer = 250,
              sd_default_betting_value = 2100, sd_updated_at = None\<rparr>
   \<and> get_bet_history False s = Inr []"
  by (simp add: get_accounts_def save_account_def create_match_def create_bet_def
        get_active_bets_def get_bet_details_def save_result_def save_settings_def
        get_settings_def read_settings_def get_bet_history_def read_bet_history_def)

text \<open>
  The claim as stated fails: the sample ledger holds the settings 500 and 3000; when the
  read fails, \<^verbatim>\<open>get_settings\<close> answers 250 and 2100 and raises nothing, and
  \<^verbatim>\<open>get_bet_history\<close> answers the empty table.
\<close>

theorem get_settings_swallows_failure_counterexample:
  "read_settings False opening_ledger = Inl OperationalError
   \<and> get_settings False opening_ledger
       = Inr \<lparr>sd_setting_id = None, sd_min_transfer = 250,
              sd_default_betting_value = 2100, sd_updated_at = None\<rparr>
   \<and> get_settings True opening_ledger
       = Inr \<lparr>sd_setting_id = Some 1, sd_min_transfer = 500,
              sd_default_betting_value = 3000, sd_updated_at = Some 2\<rparr>
   \<and> read_bet_history False opening_ledger = Inl OperationalError
   \<and> get_bet_history False opening_ledger = Inr []"
  by code_simp

subsection \<open>Placing a bet is not one step\<close>

text \<open>
  Claim C1, on the code. The form for a bet of 2100 at odds 2 and 3 (account 1 on team 1,
  account 2 on team 2) is submitted on the sample ledger, and the first
  \<^verbatim>\<open>save_account\<close> of the debit loop raises. The handler reports the error, but
  \<^verbatim>\<open>db.create_bet\<close> has committed: the store holds match 1, bet 1 and both allocations
  and no account is debited, while the session's table already shows account 1 at 3950.
  When nothing fails, the handler succeeds and both accounts are debited, but each
  debit's REPLACE has deleted the allocation of its account: the bet is left without
  allocations.
\<close>

theorem betting_form_is_not_atomic:
  "betting_form (failing_at 1) 7 sample_form opening_world
     = (Failed OperationalError,
        \<lparr>db = ledger_with_bet,
         account_data = [sample_account 1 3950 True, sample_account 2 5000 True],
         active_bets = []\<rparr>)
   \<and> map b_id (bets ledger_with_bet) = [1]
   \<and> map ba_account_id (bet_accounts ledger_with_bet) = [1, 2]
   \<and> accounts ledger_with_bet = accounts opening_ledger
   \<and> fst (betting_form working 7 sample_form opening_world) = Success
   \<and> bets (db (snd (betting_form working 7 sample_form opening_world)))
       = bets ledger_with_bet
   \<and> bet_accounts (db (snd (betting_form working 7 sample_form opening_world))) = []
   \<and> cached_balance
        (accounts (db (snd (betting_form working 7 sample_form opening_world)))) 1
       = Some 3950
   \<and> cached_balance
        (accounts (db (snd (betting_form working 7 sample_form opening_world)))) 2
       = Some 4300"
  unfolding betting_sample_form by code_simp

subsection \<open>Settling a win\<close>

text \<open>
  Claim C2, on the code. Reloading the session after a placement whose first debit
  failed gives the sample world with bet 1: allocations of 1050 for account 1 on team 1
  and 700 for account 2 on team 2, both balances 5000. ``Apply Win'' for team 1 (odds 2) succeeds;
  account 1 ends at 9200, that is 5000 plus twice the payout of 2100 (once through
  \<^verbatim>\<open>update_account_balance\<close>, once more inside \<^verbatim>\<open>save_result\<close>); account 2 keeps
  5000; the result row has no profit amount.
\<close>

theorem apply_win_credits_twice:
  "refresh_session working 0
     (snd (betting_form (failing_at 1) 7 sample_form opening_world))
     = (None, world_with_bet)
   \<and> fst (apply_win working 9 sample_active_bet ''Chennai Super Kings'' world_with_bet)
     = Success
   \<and> map da_account_id (bet_account_details 1 ledger_with_bet) = [1, 2]
   \<and> map da_team_number (bet_account_details 1 ledger_with_bet) = [1, 2]
   \<and> map da_bet_amount (bet_account_details 1 ledger_with_bet) = [1050, 700]
   \<and> ab_team1_odds sample_active_bet = 2
   \<and> cached_balance (accounts ledger_with_bet) 1 = Some 5000
   \<and> cached_balance (accounts ledger_with_bet) 2 = Some 5000
   \<and> cached_balance
        (accounts (db (snd (apply_win working 9 sample_active_bet
                              ''Chennai Super Kings'' world_with_bet)))) 1
       = Some 9200
   \<and> cached_balance
        (accounts (db (snd (apply_win working 9 sample_active_bet
                              ''Chennai Super Kings'' world_with_bet)))) 2
       = Some 5000
   \<and> map r_profit_amount
        (results (db (snd (apply_win working 9 sample_active_bet
                             ''Chennai Super Kings'' world_with_bet))))
       = [None]"
  unfolding betting_sample_form by code_simp

end
